theory Spec2Isabelle
  imports Complex_Main "HOL-Library.Product_Lexorder"
begin

section \<open>Values and rows\<close>

text \<open>
  The values an attribute of a recording or a parsed JSON body can hold, and
  JavaScript's \<^verbatim>\<open>undefined\<close>, which an attribute of an instance holds when it
  was not loaded or was set to \<^verbatim>\<open>undefined\<close>. Numbers are idealised as reals.
\<close>

datatype json =
    JUndefined
  | JNull
  | JBool bool
  | JNum real
  | JString string
  | JArray "json list"
  | JObject "(string \<times> json) list"

text \<open>
  A row of \<^verbatim>\<open>Recordings\<close> as Sequelize holds it: the primary key and the
  \<^verbatim>\<open>dataValues\<close> by attribute name (\<^verbatim>\<open>recording.get(name)\<close>,
  \<^verbatim>\<open>recording.name\<close>).
\<close>

record recording =
  rec_id :: int
  dataValues :: "string \<Rightarrow> json"

definition get_attr :: "recording \<Rightarrow> string \<Rightarrow> json" where
  "get_attr r name = dataValues r name"

text \<open>
  The attributes of the model: the primary key, those of \<^verbatim>\<open>attributes\<close>, the
  timestamps that \<^verbatim>\<open>sequelize.define\<close> adds and the foreign keys of the two
  \<^verbatim>\<open>belongsTo\<close> associations. Those declared \<^verbatim>\<open>DataTypes.STRING\<close> and
  those declared \<^verbatim>\<open>DataTypes.JSONB\<close> are listed apart.
\<close>

definition attributes :: "string list" where
  "attributes =
     [''id'', ''type'', ''duration'', ''recordingDateTime'', ''location'', ''relativeToDawn'',
      ''relativeToDusk'', ''version'', ''additionalMetadata'', ''comment'', ''public'',
      ''rawFileKey'', ''rawMimeType'', ''fileKey'', ''fileMimeType'', ''processingStartTime'',
      ''processingMeta'', ''processingState'', ''passedFilter'', ''jobKey'', ''batteryLevel'',
      ''batteryCharging'', ''airplaneModeOn'', ''createdAt'', ''updatedAt'', ''GroupId'',
      ''DeviceId'']"

definition string_attributes :: "string list" where
  "string_attributes =
     [''type'', ''version'', ''comment'', ''rawFileKey'', ''rawMimeType'', ''fileKey'',
      ''fileMimeType'', ''processingState'', ''jobKey'', ''batteryCharging'']"

definition json_attributes :: "string list" where
  "json_attributes = [''additionalMetadata'', ''processingMeta'']"

text \<open>
  \<^verbatim>\<open>recording.set(name, value)\<close> for the name of an attribute. A name that is not
  an attribute is ignored, and the primary key of a loaded row is not reassigned.
\<close>

definition set_attr :: "string \<Rightarrow> json \<Rightarrow> recording \<Rightarrow> recording" where
  "set_attr name v r =
     (if name \<in> set attributes \<and> name \<noteq> ''id''
      then r\<lparr>dataValues := (dataValues r)(name := v)\<rparr> else r)"

abbreviation rtype :: "recording \<Rightarrow> json" where
  "rtype r \<equiv> get_attr r ''type''"

abbreviation processingState :: "recording \<Rightarrow> json" where
  "processingState r \<equiv> get_attr r ''processingState''"

abbreviation processingStartTime :: "recording \<Rightarrow> json" where
  "processingStartTime r \<equiv> get_attr r ''processingStartTime''"

abbreviation jobKey :: "recording \<Rightarrow> json" where
  "jobKey r \<equiv> get_attr r ''jobKey''"

abbreviation fileKey :: "recording \<Rightarrow> json" where
  "fileKey r \<equiv> get_attr r ''fileKey''"

abbreviation additionalMetadata :: "recording \<Rightarrow> json" where
  "additionalMetadata r \<equiv> get_attr r ''additionalMetadata''"

text \<open>Rows of the tag tables, with the columns the queries read.\<close>

record tag =
  tag_RecordingId :: int
  tag_what :: "string option"
  tag_detail :: "string option"
  tag_automatic :: "bool option"

record track =
  track_id :: int
  track_RecordingId :: int
  archivedAt :: "int option"

record trackTag =
  tt_TrackId :: int
  tt_what :: "string option"
  tt_automatic :: "bool option"

text \<open>
  What becomes of a value that \<^verbatim>\<open>save()\<close> writes to a column: the write is
  refused (the promise of \<^verbatim>\<open>save()\<close> is rejected and nothing is stored), the
  value is dropped and the column left as it was, or a value is stored.
\<close>

datatype written = Refused | Ignored | Stored json

text \<open>
  The store: the four tables, and the two things that Sequelize and the database do
  with values and that this repository does not determine. \<open>writes\<close> is what becomes
  of a value written to a column, where it is not told below (\<open>write_value\<close>): a
  setter or a conversion of the attribute's type, the database's conversion to the
  column's type or its refusal. \<open>path_set\<close> is the assignment of a value under a
  path of keys inside a JSON value that is not plain assignment to a key of an object:
  the JSON value after it, or \<open>None\<close> when it throws.
\<close>

record db =
  Recordings :: "recording list"
  Tags :: "tag list"
  Tracks :: "track list"
  TrackTags :: "trackTag list"
  writes :: "string \<Rightarrow> json \<Rightarrow> written"
  path_set :: "json \<Rightarrow> string list \<Rightarrow> json \<Rightarrow> json option"

text \<open>\<^verbatim>\<open>Recording.findOne({ where: { id: id } })\<close>.\<close>

definition findOne_id :: "db \<Rightarrow> int \<Rightarrow> recording option" where
  "findOne_id d i = find (\<lambda>r. rec_id r = i) (Recordings d)"

text \<open>
  \<^verbatim>\<open>recording.save()\<close> on an instance \<open>r\<close> that was loaded whole and on which
  attributes were set to null only: a null is stored in every column but the few with
  a setter of their own, no attribute is \<^verbatim>\<open>undefined\<close>, and the row of the
  instance becomes the instance. This is the save of a report of failure; the save of
  a report of success is \<open>store_changes\<close> below.
\<close>

definition save :: "recording \<Rightarrow> db \<Rightarrow> db" where
  "save r d = d\<lparr>Recordings := map (\<lambda>x. if rec_id x = rec_id r then r else x) (Recordings d)\<rparr>"

text \<open>
  A value that a \<^verbatim>\<open>STRING\<close> column (\<^verbatim>\<open>VARCHAR(255)\<close>) stores as it is given:
  null, or a string of at most 255 characters none of which is the character zero.
\<close>

definition kept_as_given :: "json \<Rightarrow> bool" where
  "kept_as_given v =
     (case v of
        JNull \<Rightarrow> True
      | JString s \<Rightarrow> length s \<le> 255 \<and> CHR 0x00 \<notin> set s
      | _ \<Rightarrow> False)"

text \<open>
  What \<^verbatim>\<open>save()\<close> does with the value \<open>v\<close> of a changed attribute. A
  \<^verbatim>\<open>STRING\<close> attribute stores a value that is kept as given; an array or an
  object there fails Sequelize's validation of the attribute. A null is stored in
  every column without a setter or a guard of its own. Everything else is left to
  \<open>writes\<close>.
\<close>

definition write_value :: "db \<Rightarrow> string \<Rightarrow> json \<Rightarrow> written" where
  "write_value d name v =
     (if name \<in> set string_attributes then
        (if kept_as_given v then Stored v
         else case v of
                JArray xs \<Rightarrow> Refused
              | JObject kvs \<Rightarrow> Refused
              | _ \<Rightarrow> writes d name v)
      else if v = JNull \<and> name \<notin> set [''id'', ''location'', ''createdAt'', ''updatedAt'']
      then Stored JNull
      else writes d name v)"

text \<open>
  What \<^verbatim>\<open>save()\<close> does with an attribute of the instance \<open>inst\<close> that was
  loaded as \<open>original\<close>: an attribute that was not changed, or that holds
  \<^verbatim>\<open>undefined\<close>, is not part of the \<^verbatim>\<open>UPDATE\<close>.
\<close>

definition written_value :: "db \<Rightarrow> recording \<Rightarrow> recording \<Rightarrow> string \<Rightarrow> written" where
  "written_value d original inst name =
     (if name \<in> set attributes \<and> get_attr inst name \<noteq> JUndefined
         \<and> get_attr inst name \<noteq> get_attr original name
      then write_value d name (get_attr inst name)
      else Ignored)"

text \<open>
  \<^verbatim>\<open>recording.save()\<close> on the instance \<open>inst\<close> that was loaded whole as
  \<open>original\<close>: \<open>None\<close> when a write is refused, and nothing is stored then;
  otherwise the store in which the row of the instance holds what was stored.
\<close>

definition store_changes :: "recording \<Rightarrow> recording \<Rightarrow> db \<Rightarrow> db option" where
  "store_changes original inst d =
     (if list_ex (\<lambda>name. written_value d original inst name = Refused) attributes then None
      else Some (d\<lparr>Recordings :=
             map (\<lambda>x. if rec_id x = rec_id inst
                      then x\<lparr>dataValues :=
                               (\<lambda>name. case written_value d original inst name of
                                          Stored v \<Rightarrow> v
                                        | _ \<Rightarrow> dataValues x name)\<rparr>
                      else x)
                 (Recordings d)\<rparr>))"

section \<open>Processing states\<close>

text \<open>\<^verbatim>\<open>Recording.processingStates\<close>: the ordered stages of each recording type.\<close>

definition processingStates :: "json \<Rightarrow> string list option" where
  "processingStates ty =
     (if ty = JString ''thermalRaw'' then Some [''getMetadata'', ''toMp4'', ''FINISHED'']
      else if ty = JString ''audio'' then Some [''toMp3'', ''FINISHED'']
      else None)"

text \<open>\<^verbatim>\<open>jobs.indexOf(v)\<close>: the first position holding \<open>v\<close>, or \<open>-1\<close>.\<close>

fun index_from :: "int \<Rightarrow> string list \<Rightarrow> string \<Rightarrow> int" where
  "index_from i [] s = -1"
| "index_from i (x # xs) s = (if x = s then i else index_from (i + 1) xs s)"

definition indexOf :: "string list \<Rightarrow> json \<Rightarrow> int" where
  "indexOf jobs v = (case v of JString s \<Rightarrow> index_from 0 jobs s | _ \<Rightarrow> -1)"

text \<open>\<^verbatim>\<open>jobs[i]\<close>: the element at \<open>i\<close>, \<^verbatim>\<open>undefined\<close> outside the array.\<close>

definition at_index :: "string list \<Rightarrow> int \<Rightarrow> json" where
  "at_index jobs i =
     (if 0 \<le> i \<and> i < int (length jobs) then JString (jobs ! nat i) else JUndefined)"

text \<open>
  The next-stage computation of the report handler:
  \<^verbatim>\<open>jobs[jobs.indexOf(recording.processingState) + 1]\<close>.
\<close>

definition nextJob :: "string list \<Rightarrow> json \<Rightarrow> json" where
  "nextJob jobs state = at_index jobs (indexOf jobs state + 1)"

section \<open>Merging field updates\<close>

text \<open>JavaScript truthiness, for \<^verbatim>\<open>this.additionalMetadata || {}\<close>.\<close>

fun truthy :: "json \<Rightarrow> bool" where
  "truthy JUndefined = False"
| "truthy JNull = False"
| "truthy (JBool b) = b"
| "truthy (JNum n) = (n \<noteq> 0)"
| "truthy (JString s) = (s \<noteq> [])"
| "truthy (JArray xs) = True"
| "truthy (JObject kvs) = True"

text \<open>\<^verbatim>\<open>meta[name] = value\<close> on the entries of an object.\<close>

fun assign :: "string \<Rightarrow> json \<Rightarrow> (string \<times> json) list \<Rightarrow> (string \<times> json) list" where
  "assign k v [] = [(k, v)]"
| "assign k v ((k', v') # kvs) = (if k' = k then (k, v) # kvs else (k', v') # assign k v kvs)"

text \<open>The decimal numeral of a number, as the name of an index.\<close>

fun show_nat :: "nat \<Rightarrow> string" where
  "show_nat n =
     (if n < 10 then [''0123456789'' ! n]
      else show_nat (n div 10) @ [''0123456789'' ! (n mod 10)])"

declare show_nat.simps [simp del]

text \<open>
  \<^verbatim>\<open>for (const name in newValues)\<close> with \<^verbatim>\<open>newValues[name]\<close>: the entries of an
  object, the elements of an array and the characters of a string under their indices,
  and nothing for any other value.
\<close>

definition own_entries :: "json \<Rightarrow> (string \<times> json) list" where
  "own_entries v =
     (case v of
        JObject kvs \<Rightarrow> kvs
      | JArray xs \<Rightarrow> zip (map show_nat [0..<length xs]) xs
      | JString s \<Rightarrow> zip (map show_nat [0..<length s]) (map (\<lambda>c. JString [c]) s)
      | _ \<Rightarrow> [])"

text \<open>
  \<^verbatim>\<open>meta[name] = value\<close> on the metadata: on an object the key is assigned
  (\<^verbatim>\<open>__proto__\<close> is not a key), on a number, a string or \<^verbatim>\<open>true\<close> nothing
  happens, and what happens on an array is left to \<open>path_set\<close>.
\<close>

definition assign_key :: "db \<Rightarrow> string \<Rightarrow> json \<Rightarrow> json \<Rightarrow> json option" where
  "assign_key d k v meta =
     (case meta of
        JObject kvs \<Rightarrow> Some (if k = ''__proto__'' then meta else JObject (assign k v kvs))
      | JArray xs \<Rightarrow> path_set d meta [k] v
      | _ \<Rightarrow> Some meta)"

fun assign_all :: "db \<Rightarrow> (string \<times> json) list \<Rightarrow> json \<Rightarrow> json option" where
  "assign_all d [] meta = Some meta"
| "assign_all d ((k, v) # kvs) meta =
     (case assign_key d k v meta of
        None \<Rightarrow> None
      | Some meta' \<Rightarrow> assign_all d kvs meta')"

text \<open>
  \<^verbatim>\<open>Recording.prototype.mergeAdditionalMetadata\<close>: every key of the new values is
  assigned into the existing metadata, or into a fresh object when there is none.
  \<open>None\<close> when an assignment throws.
\<close>

definition mergeAdditionalMetadata :: "db \<Rightarrow> json \<Rightarrow> recording \<Rightarrow> recording option" where
  "mergeAdditionalMetadata d newValues r =
     (let meta = (if truthy (additionalMetadata r) then additionalMetadata r else JObject [])
      in map_option (\<lambda>meta'. set_attr ''additionalMetadata'' meta' r)
           (assign_all d (own_entries newValues) meta))"

text \<open>The parts of a name between its dots.\<close>

fun split_dots :: "string \<Rightarrow> string list" where
  "split_dots [] = [[]]"
| "split_dots (c # cs) =
     (if c = CHR ''.'' then [] # split_dots cs
      else case split_dots cs of
             [] \<Rightarrow> [[c]]
           | p # ps \<Rightarrow> (c # p) # ps)"

text \<open>
  \<^verbatim>\<open>recording.set(name, value)\<close> for any name: an attribute is set; a name that is
  not an attribute but has a dot, and a JSON attribute before its first dot, is a path
  into that attribute, left to \<open>path_set\<close>; every other name is ignored.
\<close>

definition set_name :: "db \<Rightarrow> string \<Rightarrow> json \<Rightarrow> recording \<Rightarrow> recording option" where
  "set_name d name v r =
     (if name \<in> set attributes then Some (set_attr name v r)
      else if CHR ''.'' \<in> set name \<and> hd (split_dots name) \<in> set json_attributes
      then map_option (\<lambda>j. set_attr (hd (split_dots name)) j r)
             (path_set d (get_attr r (hd (split_dots name))) (tl (split_dots name)) v)
      else Some r)"

text \<open>
  \<^verbatim>\<open>Recording.prototype.mergeUpdate\<close> on the entries of the new values:
  \<^verbatim>\<open>additionalMetadata\<close> is merged, every other name is set. \<open>None\<close> when it
  throws.
\<close>

fun mergeUpdate :: "db \<Rightarrow> (string \<times> json) list \<Rightarrow> recording \<Rightarrow> recording option" where
  "mergeUpdate d [] r = Some r"
| "mergeUpdate d ((name, newValue) # rest) r =
     (case (if name = ''additionalMetadata'' then mergeAdditionalMetadata d newValue r
            else set_name d name newValue r) of
        None \<Rightarrow> None
      | Some r' \<Rightarrow> mergeUpdate d rest r')"

section \<open>Reporting a finished job\<close>

text \<open>
  The body of \<^verbatim>\<open>PUT /api/fileProcessing\<close> after the framework has read it:
  \<^verbatim>\<open>parseInt(id)\<close> (\<open>None\<close> for \<^verbatim>\<open>NaN\<close>), the job key, the two parsed booleans,
  the new file key (\<open>JUndefined\<close> when the body has none) and the \<^verbatim>\<open>result\<close>
  field, which is absent, not valid JSON, or parsed; of a parsed result only the
  entries of \<^verbatim>\<open>result.fieldUpdates\<close> are read, in the order in which
  \<^verbatim>\<open>for..in\<close> visits them (none when it is missing or has no keys).
\<close>

datatype result_field = NoResult | NotJSON | Parsed "(string \<times> json) list"

record request =
  req_id :: "int option"
  req_jobKey :: "string option"
  req_success :: "bool option"
  req_result :: result_field
  req_complete :: "bool option"
  req_newProcessedFileKey :: json

text \<open>
  What the handler does with the request: a JSON response with its status and
  messages, or no response: an uncaught \<^verbatim>\<open>TypeError\<close> (no recording with that
  id, or a recording type without processing states), an error thrown while the field
  updates are merged, or a rejected \<^verbatim>\<open>save()\<close>.
\<close>

datatype response = Response nat "string list" | TypeError | UpdateError | SaveError

definition errorMessages :: "request \<Rightarrow> string list" where
  \<open>errorMessages req =
     (if req_id req = None then [''\'id\' field needs to be a number.''] else []) @
     (if req_jobKey req = None then [''\'jobKey\' field is required.''] else []) @
     (if req_success req = None then [''\'success\' field is required''] else []) @
     (if req_result req = NotJSON then [''\'result\' field was not a valid JSON.''] else [])\<close>

text \<open>
  The handler of \<^verbatim>\<open>PUT /api/fileProcessing\<close>. The job key of the request is a
  string and the stored one a string or null, so \<^verbatim>\<open>!=\<close> between them is
  inequality. A request that passes the validation has an id and a job key; the last
  case is there only to make the case distinction complete.
\<close>

definition put_fileProcessing :: "request \<Rightarrow> db \<Rightarrow> response \<times> db" where
  \<open>put_fileProcessing req d =
     (if errorMessages req \<noteq> [] then (Response 400 (errorMessages req), d)
      else case (req_id req, req_jobKey req) of
        (Some i, Some k) \<Rightarrow>
          (case findOne_id d i of
             None \<Rightarrow> (TypeError, d)
           | Some recording \<Rightarrow>
               if JString k \<noteq> jobKey recording
               then (Response 400 [''\'jobKey\' given did not match the database..''], d)
               else if req_success req = Some True then
                 (case processingStates (rtype recording) of
                    None \<Rightarrow> (TypeError, d)
                  | Some jobs \<Rightarrow>
                      let r1 = set_attr ''processingState''
                                 (nextJob jobs (processingState recording)) recording;
                          r2 = set_attr ''fileKey'' (req_newProcessedFileKey req) r1;
                          r3 = (if req_complete req = Some True
                                then set_attr ''processingStartTime'' JNull
                                       (set_attr ''jobKey'' JNull r2)
                                else r2)
                      in (case (case req_result req of
                                  Parsed fieldUpdates \<Rightarrow> mergeUpdate d fieldUpdates r3
                                | _ \<Rightarrow> Some r3) of
                            None \<Rightarrow> (UpdateError, d)
                          | Some r4 \<Rightarrow>
                              (case store_changes recording r4 d of
                                 None \<Rightarrow> (SaveError, d)
                               | Some d' \<Rightarrow> (Response 200 [''Processing finished.''], d'))))
               else
                 (let r1 = set_attr ''processingStartTime'' JNull recording;
                      r2 = set_attr ''jobKey'' JNull r1
                  in (Response 200 [''Processing failed.''], save r2 d)))
      | _ \<Rightarrow> (TypeError, d))\<close>

section \<open>Claiming a recording for processing\<close>

text \<open>\<^verbatim>\<open>Recording.processingAttributes\<close>, the columns a claim loads.\<close>

definition processingAttributes :: "string list" where
  "processingAttributes =
     [''id'', ''type'', ''jobKey'', ''rawFileKey'', ''rawMimeType'', ''fileKey'',
      ''fileMimeType'', ''processingState'', ''processingMeta'']"

definition project :: "string list \<Rightarrow> recording \<Rightarrow> recording" where
  "project attrs r =
     r\<lparr>dataValues := (\<lambda>name. if name \<in> set attrs then dataValues r name else JUndefined)\<rparr>"

text \<open>The \<^verbatim>\<open>where\<close> clause of the claim: type, state, and no processing start time.\<close>

definition claimable :: "string \<Rightarrow> string \<Rightarrow> recording \<Rightarrow> bool" where
  "claimable ty st r \<longleftrightarrow>
     rtype r = JString ty \<and> processingState r = JString st \<and> processingStartTime r = JNull"

text \<open>
  \<^verbatim>\<open>ORDER BY ... DESC LIMIT 1\<close>: a row whose sort key no other row exceeds, the
  earliest such row of the table among equals.
\<close>

fun first_desc :: "('a \<Rightarrow> 'k::linorder) \<Rightarrow> 'a list \<Rightarrow> 'a option" where
  "first_desc key [] = None"
| "first_desc key (x # xs) =
     (case first_desc key xs of
        None \<Rightarrow> Some x
      | Some y \<Rightarrow> if key x < key y then Some y else Some x)"

text \<open>
  \<^verbatim>\<open>recording.save()\<close> on an instance that holds only some columns: the named
  (changed) attributes are written to the row with the instance's primary key, those
  that hold \<^verbatim>\<open>undefined\<close> left out. The values written here are times, job keys,
  stage names and metadata objects, which are stored as they are.
\<close>

definition save_fields :: "string list \<Rightarrow> recording \<Rightarrow> db \<Rightarrow> db" where
  "save_fields names r d =
     d\<lparr>Recordings :=
         map (\<lambda>x. if rec_id x = rec_id r
                  then fold (\<lambda>name y. if get_attr r name = JUndefined then y
                                      else set_attr name (get_attr r name) y) names x
                  else x)
             (Recordings d)\<rparr>"

text \<open>The rows a claim can take: matching, and not locked by another transaction.\<close>

definition candidates :: "int list \<Rightarrow> string \<Rightarrow> string \<Rightarrow> db \<Rightarrow> recording list" where
  "candidates locked ty st d =
     filter (\<lambda>r. claimable ty st r \<and> rec_id r \<notin> set locked) (Recordings d)"

text \<open>
  \<^verbatim>\<open>Recording.getOneForProcessing(type, state)\<close>. What the environment decides is
  passed in: \<open>sortKey\<close> is the store's ordering of the \<^verbatim>\<open>recordingDateTime\<close>
  column (the key grows along \<^verbatim>\<open>ORDER BY ... ASC\<close>; \<open>time_key\<close> below is
  PostgreSQL's), \<open>locked\<close> the primary keys of the rows that other transactions hold
  locked (\<^verbatim>\<open>skipLocked\<close> leaves them out), \<open>fails\<close> whether the transaction is
  rejected, \<open>uuid\<close> the result of \<^verbatim>\<open>uuidv4()\<close> and \<open>date\<close> that of
  \<^verbatim>\<open>new Date().toISOString()\<close>. With no row found, \<^verbatim>\<open>recording.set\<close> throws on
  \<^verbatim>\<open>null\<close>; that and every other rejection end in the \<^verbatim>\<open>catch\<close>, which
  returns \<^verbatim>\<open>null\<close> (\<open>None\<close>).
\<close>

definition getOneForProcessing ::
  "(json \<Rightarrow> 'k::linorder) \<Rightarrow> int list \<Rightarrow> bool \<Rightarrow> string \<Rightarrow> string \<Rightarrow>
   string \<Rightarrow> string \<Rightarrow> db \<Rightarrow> recording option \<times> db" where
  "getOneForProcessing sortKey locked fails uuid date ty st d =
     (if fails then (None, d)
      else case first_desc (\<lambda>r. sortKey (get_attr r ''recordingDateTime''))
                  (candidates locked ty st d) of
        None \<Rightarrow> (None, d)
      | Some row \<Rightarrow>
          let recording = set_attr ''processingStartTime'' (JString date)
                            (set_attr ''jobKey'' (JString uuid)
                               (project processingAttributes row))
          in (Some recording, save_fields [''jobKey'', ''processingStartTime''] recording d))"

section \<open>Reprocessing\<close>

text \<open>A tag as it is kept under \<^verbatim>\<open>oldTags\<close>, with the columns of the \<open>tag\<close> record.\<close>

definition opt_string :: "string option \<Rightarrow> json" where
  "opt_string v = (case v of None \<Rightarrow> JNull | Some s \<Rightarrow> JString s)"

definition opt_bool :: "bool option \<Rightarrow> json" where
  "opt_bool v = (case v of None \<Rightarrow> JNull | Some b \<Rightarrow> JBool b)"

definition tag_json :: "tag \<Rightarrow> json" where
  "tag_json t =
     JObject [(''what'', opt_string (tag_what t)), (''detail'', opt_string (tag_detail t)),
              (''automatic'', opt_bool (tag_automatic t))]"

datatype completion = Returned | Thrown

text \<open>
  \<^verbatim>\<open>Recording.prototype.reprocess\<close> on the instance \<open>r\<close>, at time \<open>now\<close>
  (\<^verbatim>\<open>Date.now()\<close>). A type without processing states makes
  \<^verbatim>\<open>Recording.processingStates[this.type][0]\<close> throw, after the tags are gone.
\<close>

definition reprocess :: "int \<Rightarrow> recording \<Rightarrow> db \<Rightarrow> completion \<times> db" where
  "reprocess now r d =
     (let tags = filter (\<lambda>t. tag_RecordingId t = rec_id r) (Tags d);
          meta = (if truthy (additionalMetadata r) then additionalMetadata r else JObject []);
          meta' = (case meta of
                     JObject kvs \<Rightarrow> JObject (assign ''oldTags'' (JArray (map tag_json tags)) kvs)
                   | m \<Rightarrow> m);
          r1 = (if tags \<noteq> [] then set_attr ''additionalMetadata'' meta' r else r);
          d1 = (if tags \<noteq> [] then save_fields [''additionalMetadata''] r1 d else d);
          d2 = d1\<lparr>Tags := filter (\<lambda>t. tag_RecordingId t \<noteq> rec_id r) (Tags d1)\<rparr>;
          d3 = d2\<lparr>Tracks :=
                    map (\<lambda>t. if track_RecordingId t = rec_id r \<and> archivedAt t = None
                             then t\<lparr>archivedAt := Some now\<rparr> else t)
                        (Tracks d2)\<rparr>
      in case processingStates (rtype r) of
           None \<Rightarrow> (Thrown, d3)
         | Some jobs \<Rightarrow>
             let r2 = set_attr ''processingState'' (at_index jobs 0)
                        (set_attr ''processingStartTime'' JNull r1)
             in (Returned, save_fields [''processingStartTime'', ''processingState''] r2 d3))"

section \<open>Location precision\<close>

text \<open>
  \<^verbatim>\<open>Recording.makeFilterOptions\<close>: the precision that will be used, from whether the
  user has global write access and the requested \<^verbatim>\<open>latLongPrec\<close>.
\<close>

definition makeFilterOptions :: "bool \<Rightarrow> json \<Rightarrow> real" where
  "makeFilterOptions hasGlobalWrite latLongPrec =
     (let prec = (case latLongPrec of JNum n \<Rightarrow> n | _ \<Rightarrow> 100)
      in if \<not> hasGlobalWrite then max prec 100 else prec)"

text \<open>
  JavaScript's \<^verbatim>\<open>%\<close> on numbers: the remainder has the sign of the dividend, and
  is \<^verbatim>\<open>NaN\<close> (\<open>None\<close>) for a zero divisor.
\<close>

definition js_rem :: "real \<Rightarrow> real \<Rightarrow> real option" where
  "js_rem x y =
     (if y = 0 then None
      else Some (x - y * of_int (if 0 \<le> x / y then \<lfloor>x / y\<rfloor> else \<lceil>x / y\<rceil>)))"

datatype assertion = AssertionError

text \<open>\<^verbatim>\<open>reduceLatLonPrecision\<close>; a coordinate \<open>None\<close> is \<^verbatim>\<open>NaN\<close>.\<close>

definition reduceLatLonPrecision :: "real list \<Rightarrow> real \<Rightarrow> assertion + real option list" where
  "reduceLatLonPrecision latLon prec =
     (if length latLon \<noteq> 2 then Inl AssertionError
      else
        let resolution = (prec * 360) / 40000000;
            half_resolution = resolution / 2
        in Inr (map (\<lambda>val.
                  case js_rem val resolution of
                    None \<Rightarrow> None
                  | Some m \<Rightarrow>
                      let val' = val - m
                      in if val' > 0 then Some (val' + half_resolution)
                         else Some (val' - half_resolution)) latLon))"

text \<open>
  \<^verbatim>\<open>Recording.prototype.filterData\<close> on the coordinates of the recording's location
  (\<open>None\<close> when it has no location).
\<close>

definition filterData :: "real list option \<Rightarrow> real \<Rightarrow> assertion + real option list option" where
  "filterData location latLongPrec =
     (case location of
        None \<Rightarrow> Inr None
      | Some coordinates \<Rightarrow>
          (case reduceLatLonPrecision coordinates latLongPrec of
             Inl e \<Rightarrow> Inl e
           | Inr cs \<Rightarrow> Inr (Some cs)))"

section \<open>Tag modes\<close>

subsection \<open>The SQL text\<close>

text \<open>
  \<^verbatim>\<open>Recording.queryBuilder\<close> builds the tag condition of a query as SQL text. The
  functions below produce that text, character for character; \<^verbatim>\<open>null\<close> is
  \<open>None\<close>, and a thrown message is \<open>Inl\<close>.
\<close>

text \<open>\<^verbatim>\<open>parts.join(sep)\<close>.\<close>

fun join :: "string \<Rightarrow> string list \<Rightarrow> string" where
  "join sep [] = []"
| "join sep [x] = x"
| "join sep (x # y # ys) = x @ sep @ join sep (y # ys)"

text \<open>A name between single quotes, as it is spliced into the text.\<close>

definition quoted :: "string \<Rightarrow> string" where
  "quoted s = [CHR 0x27] @ s @ [CHR 0x27]"

text \<open>The parts that one tag name adds in \<^verbatim>\<open>selectByTagWhat\<close>.\<close>

definition tag_parts :: "string \<Rightarrow> bool \<Rightarrow> string \<Rightarrow> string list" where
  \<open>tag_parts whatName usesDetail tag =
     (if tag = ''interesting'' then
        (if usesDetail then
           [''(("Tags"."'' @ whatName @ ''" IS NULL OR "Tags"."'' @ whatName @ ''"!=\'bird\') ''
            @ ''AND ("Tags"."detail" IS NULL OR "Tags"."detail"!=\'false positive\'))'']
         else
           [''("Tags"."'' @ whatName @ ''"!=\'bird\' AND "Tags"."'' @ whatName
            @ ''"!=\'false positive\')''])
      else
        [''"Tags"."'' @ whatName @ ''" = '' @ quoted tag] @
        (if usesDetail then [''"Tags"."detail" = '' @ quoted tag] else []))\<close>

definition selectByTagWhat :: "string list \<Rightarrow> string \<Rightarrow> bool \<Rightarrow> string option" where
  "selectByTagWhat tags whatName usesDetail =
     (if tags = [] then None
      else Some (join '' OR '' (concat (map (tag_parts whatName usesDetail) tags))))"

text \<open>String concatenation with a value that may be \<^verbatim>\<open>null\<close>.\<close>

definition or_null :: "string option \<Rightarrow> string" where
  "or_null v = (case v of None \<Rightarrow> ''null'' | Some s \<Rightarrow> s)"

definition recordingTaggedWith :: "string list option \<Rightarrow> string option \<Rightarrow> string" where
  \<open>recordingTaggedWith tags tagTypeSql =
     ''SELECT "Recording"."id" FROM "Tags" WHERE  "Tags"."RecordingId" = "Recording".id'' @
     (case tags of
        None \<Rightarrow> ''''
      | Some ts \<Rightarrow> '' AND ('' @ or_null (selectByTagWhat ts ''what'' True) @ '')'') @
     (case tagTypeSql of
        None \<Rightarrow> ''''
      | Some t \<Rightarrow> '' AND ('' @ t @ '')'')\<close>

definition trackTaggedWith :: "string list option \<Rightarrow> string option \<Rightarrow> string" where
  \<open>trackTaggedWith tags tagTypeSql =
     ''SELECT "Recording"."id" FROM "Tracks" INNER JOIN "TrackTags" AS "Tags" ON "Tracks"."id" = "Tags"."TrackId" '' @
     ''WHERE "Tracks"."RecordingId" = "Recording".id AND "Tracks"."archivedAt" IS NULL'' @
     (case tags of
        None \<Rightarrow> ''''
      | Some ts \<Rightarrow> '' AND ('' @ or_null (selectByTagWhat ts ''what'' False) @ '')'') @
     (case tagTypeSql of
        None \<Rightarrow> ''''
      | Some t \<Rightarrow> '' AND ('' @ t @ '')'')\<close>

definition tagOfType :: "string list option \<Rightarrow> string option \<Rightarrow> string" where
  "tagOfType tagWhats tagTypeSql =
     ''(EXISTS ('' @ recordingTaggedWith tagWhats tagTypeSql @
     '') OR EXISTS('' @ trackTaggedWith tagWhats tagTypeSql @ ''))''"

definition notTagOfType :: "string list option \<Rightarrow> string option \<Rightarrow> string" where
  "notTagOfType tagWhats tagTypeSql =
     ''NOT EXISTS ('' @ recordingTaggedWith tagWhats tagTypeSql @
     '') AND NOT EXISTS('' @ trackTaggedWith tagWhats tagTypeSql @ '')''"

definition humanSQL :: string where
  \<open>humanSQL = ''NOT "Tags".automatic''\<close>

definition AISQL :: string where
  \<open>AISQL = ''"Tags".automatic''\<close>

text \<open>
  \<^verbatim>\<open>Recording.queryBuilder.handleTagMode(tagMode, tagWhatsIn)\<close>; a missing or empty
  list of names is \<open>[]\<close>, a missing or empty mode \<open>None\<close> or the empty string.
\<close>

definition handleTagMode :: "string option \<Rightarrow> string list \<Rightarrow> string + string" where
  "handleTagMode tagMode tagWhatsIn =
     (let tagWhats = (if tagWhatsIn \<noteq> [] then Some tagWhatsIn else None);
          mode = (case tagMode of
                    None \<Rightarrow> (if tagWhats \<noteq> None then ''tagged'' else ''any'')
                  | Some m \<Rightarrow> (if m = [] then (if tagWhats \<noteq> None then ''tagged'' else ''any'')
                              else m))
      in if mode = ''any'' then Inr ''''
         else if mode = ''untagged'' then Inr (notTagOfType tagWhats None)
         else if mode = ''tagged'' then Inr (tagOfType tagWhats None)
         else if mode = ''human-tagged'' then Inr (tagOfType tagWhats (Some humanSQL))
         else if mode = ''automatic-tagged'' then Inr (tagOfType tagWhats (Some AISQL))
         else if mode = ''both-tagged'' then
           Inr (tagOfType tagWhats (Some humanSQL) @ '' AND '' @ tagOfType tagWhats (Some AISQL))
         else if mode = ''no-human'' then Inr (notTagOfType tagWhats (Some humanSQL))
         else if mode = ''automatic-only'' then
           Inr (tagOfType tagWhats (Some AISQL) @ '' AND '' @ notTagOfType tagWhats (Some humanSQL))
         else if mode = ''human-only'' then
           Inr (tagOfType tagWhats (Some humanSQL) @ '' AND '' @ notTagOfType tagWhats (Some AISQL))
         else if mode = ''automatic+human'' then
           Inr (tagOfType tagWhats (Some humanSQL) @ '' AND '' @ tagOfType tagWhats (Some AISQL))
         else if mode \<in> {''cool'', ''missed track'', ''multiple animals'', ''trapped in trap''} then
           Inr (''(EXISTS ('' @ recordingTaggedWith (Some [mode]) None @ ''))'' @
                (case tagWhats of
                   None \<Rightarrow> ''''
                 | Some ts \<Rightarrow> '' AND '' @ tagOfType (Some ts) None))
         else Inl (''invalid tag mode: '' @ mode))"

subsection \<open>The conditions the text denotes\<close>

text \<open>
  The same conditions as expressions: every constructor stands for the piece of text
  that \<open>cond_text\<close>, \<open>query_text\<close> and \<open>pred_text\<close> give for it, and the functions
  with suffix \<open>_expr\<close> follow the functions above step by step. A column is named by
  its name under the alias \<^verbatim>\<open>"Tags"\<close>; the value compared with it is the
  content of the quoted literal, a string without a quote in it.
\<close>

datatype cond =
    IsNull string
  | NotEq string string
  | Eq string string
  | Automatic
  | NullLiteral
  | Not cond
  | Both cond cond
  | Either cond cond
  | AnyOf "cond list"
  | Paren cond

fun cond_text :: "cond \<Rightarrow> string" where
  \<open>cond_text (IsNull c) = ''"Tags"."'' @ c @ ''" IS NULL''\<close>
| \<open>cond_text (NotEq c v) = ''"Tags"."'' @ c @ ''"!='' @ quoted v\<close>
| \<open>cond_text (Eq c v) = ''"Tags"."'' @ c @ ''" = '' @ quoted v\<close>
| \<open>cond_text Automatic = ''"Tags".automatic''\<close>
| \<open>cond_text NullLiteral = ''null''\<close>
| \<open>cond_text (Not c) = ''NOT '' @ cond_text c\<close>
| \<open>cond_text (Both a b) = cond_text a @ '' AND '' @ cond_text b\<close>
| \<open>cond_text (Either a b) = cond_text a @ '' OR '' @ cond_text b\<close>
| \<open>cond_text (AnyOf cs) = join '' OR '' (map cond_text cs)\<close>
| \<open>cond_text (Paren c) = ''('' @ cond_text c @ '')''\<close>

text \<open>
  A subquery selects from the tags of the recording, or from the tags of its tracks
  that are not archived, the rows that satisfy every condition of the list.
\<close>

datatype source = FromTags | FromTrackTags

datatype query = Select source "cond list"

fun query_text :: "query \<Rightarrow> string" where
  \<open>query_text (Select FromTags cs) =
     ''SELECT "Recording"."id" FROM "Tags" WHERE  "Tags"."RecordingId" = "Recording".id'' @
     concat (map (\<lambda>c. '' AND ('' @ cond_text c @ '')'') cs)\<close>
| \<open>query_text (Select FromTrackTags cs) =
     ''SELECT "Recording"."id" FROM "Tracks" INNER JOIN "TrackTags" AS "Tags" ON "Tracks"."id" = "Tags"."TrackId" '' @
     ''WHERE "Tracks"."RecordingId" = "Recording".id AND "Tracks"."archivedAt" IS NULL'' @
     concat (map (\<lambda>c. '' AND ('' @ cond_text c @ '')'') cs)\<close>

text \<open>
  The condition on a recording. \<open>Exists\<close> carries whether the text has a space
  before its parenthesis.
\<close>

datatype pred =
    NoCondition
  | Exists bool query
  | PNot pred
  | PBoth pred pred
  | PEither pred pred
  | PParen pred

fun pred_text :: "pred \<Rightarrow> string" where
  "pred_text NoCondition = []"
| "pred_text (Exists spaced q) =
     (if spaced then ''EXISTS ('' else ''EXISTS('') @ query_text q @ '')''"
| "pred_text (PNot p) = ''NOT '' @ pred_text p"
| "pred_text (PBoth p q) = pred_text p @ '' AND '' @ pred_text q"
| "pred_text (PEither p q) = pred_text p @ '' OR '' @ pred_text q"
| "pred_text (PParen p) = ''('' @ pred_text p @ '')''"

text \<open>
  A tag name is spliced into the text between two quotes as it is, so the text has the
  literal with that name as its content only when the name has no quote in it. The
  functions with suffix \<open>_expr\<close> read the text for such names, and for the column
  name \<^verbatim>\<open>what\<close> that the code passes; every other text is \<open>Unread\<close>.
\<close>

definition plain :: "string \<Rightarrow> bool" where
  "plain name \<longleftrightarrow> CHR 0x27 \<notin> set name"

datatype 'a reading = Unread | Read 'a

fun read_all :: "'a reading list \<Rightarrow> 'a list reading" where
  "read_all [] = Read []"
| "read_all (x # xs) =
     (case x of
        Unread \<Rightarrow> Unread
      | Read a \<Rightarrow> (case read_all xs of Unread \<Rightarrow> Unread | Read as \<Rightarrow> Read (a # as)))"

definition read_both :: "('a \<Rightarrow> 'b \<Rightarrow> 'c) \<Rightarrow> 'a reading \<Rightarrow> 'b reading \<Rightarrow> 'c reading" where
  "read_both f x y =
     (case x of
        Unread \<Rightarrow> Unread
      | Read a \<Rightarrow> (case y of Unread \<Rightarrow> Unread | Read b \<Rightarrow> Read (f a b)))"

definition tag_parts_expr :: "string \<Rightarrow> bool \<Rightarrow> string \<Rightarrow> cond list reading" where
  "tag_parts_expr whatName usesDetail tag =
     (if whatName = ''what'' \<and> plain tag then
        Read (if tag = ''interesting'' then
                (if usesDetail then
                   [Paren (Both (Paren (Either (IsNull whatName) (NotEq whatName ''bird'')))
                                (Paren (Either (IsNull ''detail'')
                                               (NotEq ''detail'' ''false positive''))))]
                 else
                   [Paren (Both (NotEq whatName ''bird'') (NotEq whatName ''false positive''))])
              else
                [Eq whatName tag] @ (if usesDetail then [Eq ''detail'' tag] else []))
      else Unread)"

definition selectByTagWhat_expr :: "string list \<Rightarrow> string \<Rightarrow> bool \<Rightarrow> cond option reading" where
  "selectByTagWhat_expr tags whatName usesDetail =
     (if tags = [] then Read None
      else case read_all (map (tag_parts_expr whatName usesDetail) tags) of
             Unread \<Rightarrow> Unread
           | Read parts \<Rightarrow> Read (Some (AnyOf (concat parts))))"

definition or_null_expr :: "cond option \<Rightarrow> cond" where
  "or_null_expr v = (case v of None \<Rightarrow> NullLiteral | Some c \<Rightarrow> c)"

definition recordingTaggedWith_expr :: "string list option \<Rightarrow> cond option \<Rightarrow> query reading" where
  "recordingTaggedWith_expr tags tagTypeSql =
     (case tags of
        None \<Rightarrow> Read (Select FromTags (case tagTypeSql of None \<Rightarrow> [] | Some t \<Rightarrow> [t]))
      | Some ts \<Rightarrow>
          (case selectByTagWhat_expr ts ''what'' True of
             Unread \<Rightarrow> Unread
           | Read c \<Rightarrow>
               Read (Select FromTags
                       ([or_null_expr c] @ (case tagTypeSql of None \<Rightarrow> [] | Some t \<Rightarrow> [t])))))"

definition trackTaggedWith_expr :: "string list option \<Rightarrow> cond option \<Rightarrow> query reading" where
  "trackTaggedWith_expr tags tagTypeSql =
     (case tags of
        None \<Rightarrow> Read (Select FromTrackTags (case tagTypeSql of None \<Rightarrow> [] | Some t \<Rightarrow> [t]))
      | Some ts \<Rightarrow>
          (case selectByTagWhat_expr ts ''what'' False of
             Unread \<Rightarrow> Unread
           | Read c \<Rightarrow>
               Read (Select FromTrackTags
                       ([or_null_expr c] @ (case tagTypeSql of None \<Rightarrow> [] | Some t \<Rightarrow> [t])))))"

definition tagOfType_expr :: "string list option \<Rightarrow> cond option \<Rightarrow> pred reading" where
  "tagOfType_expr tagWhats tagTypeSql =
     read_both (\<lambda>q q'. PParen (PEither (Exists True q) (Exists False q')))
       (recordingTaggedWith_expr tagWhats tagTypeSql) (trackTaggedWith_expr tagWhats tagTypeSql)"

definition notTagOfType_expr :: "string list option \<Rightarrow> cond option \<Rightarrow> pred reading" where
  "notTagOfType_expr tagWhats tagTypeSql =
     read_both (\<lambda>q q'. PBoth (PNot (Exists True q)) (PNot (Exists False q')))
       (recordingTaggedWith_expr tagWhats tagTypeSql) (trackTaggedWith_expr tagWhats tagTypeSql)"

definition humanSQL_expr :: cond where
  "humanSQL_expr = Not Automatic"

definition AISQL_expr :: cond where
  "AISQL_expr = Automatic"

text \<open>
  Why \<^verbatim>\<open>handleTagMode\<close> gives no condition that is read: it throws the message, or
  the text it returns is not read.
\<close>

datatype no_pred = Throws string | NotRead

definition result_of :: "pred reading \<Rightarrow> no_pred + pred" where
  "result_of x = (case x of Unread \<Rightarrow> Inl NotRead | Read p \<Rightarrow> Inr p)"

definition handleTagMode_expr :: "string option \<Rightarrow> string list \<Rightarrow> no_pred + pred" where
  "handleTagMode_expr tagMode tagWhatsIn =
     (let tagWhats = (if tagWhatsIn \<noteq> [] then Some tagWhatsIn else None);
          mode = (case tagMode of
                    None \<Rightarrow> (if tagWhats \<noteq> None then ''tagged'' else ''any'')
                  | Some m \<Rightarrow> (if m = [] then (if tagWhats \<noteq> None then ''tagged'' else ''any'')
                              else m))
      in if mode = ''any'' then Inr NoCondition
         else if mode = ''untagged'' then result_of (notTagOfType_expr tagWhats None)
         else if mode = ''tagged'' then result_of (tagOfType_expr tagWhats None)
         else if mode = ''human-tagged'' then
           result_of (tagOfType_expr tagWhats (Some humanSQL_expr))
         else if mode = ''automatic-tagged'' then
           result_of (tagOfType_expr tagWhats (Some AISQL_expr))
         else if mode = ''both-tagged'' then
           result_of (read_both PBoth (tagOfType_expr tagWhats (Some humanSQL_expr))
                                      (tagOfType_expr tagWhats (Some AISQL_expr)))
         else if mode = ''no-human'' then
           result_of (notTagOfType_expr tagWhats (Some humanSQL_expr))
         else if mode = ''automatic-only'' then
           result_of (read_both PBoth (tagOfType_expr tagWhats (Some AISQL_expr))
                                      (notTagOfType_expr tagWhats (Some humanSQL_expr)))
         else if mode = ''human-only'' then
           result_of (read_both PBoth (tagOfType_expr tagWhats (Some humanSQL_expr))
                                      (notTagOfType_expr tagWhats (Some AISQL_expr)))
         else if mode = ''automatic+human'' then
           result_of (read_both PBoth (tagOfType_expr tagWhats (Some humanSQL_expr))
                                      (tagOfType_expr tagWhats (Some AISQL_expr)))
         else if mode \<in> {''cool'', ''missed track'', ''multiple animals'', ''trapped in trap''} then
           result_of
             (case tagWhats of
                None \<Rightarrow>
                  read_both (\<lambda>q u. PParen (Exists True q))
                    (recordingTaggedWith_expr (Some [mode]) None) (Read ())
              | Some ts \<Rightarrow>
                  read_both (\<lambda>q p. PBoth (PParen (Exists True q)) p)
                    (recordingTaggedWith_expr (Some [mode]) None) (tagOfType_expr (Some ts) None))
         else Inl (Throws (''invalid tag mode: '' @ mode)))"

subsection \<open>What the conditions mean\<close>

text \<open>
  A row under the alias \<^verbatim>\<open>"Tags"\<close>: a tag of the recording, or a tag of one of its
  tracks (which has no \<^verbatim>\<open>detail\<close>). Conditions are evaluated in SQL's three-valued
  logic, \<open>None\<close> being unknown; a row is selected when every condition is true.
\<close>

record tag_row =
  what :: "string option"
  detail :: "string option"
  automatic :: "bool option"

definition column :: "tag_row \<Rightarrow> string \<Rightarrow> string option" where
  "column row name =
     (if name = ''what'' then what row else if name = ''detail'' then detail row else None)"

fun sql_not :: "bool option \<Rightarrow> bool option" where
  "sql_not None = None"
| "sql_not (Some b) = Some (\<not> b)"

fun sql_and :: "bool option \<Rightarrow> bool option \<Rightarrow> bool option" where
  "sql_and (Some False) _ = Some False"
| "sql_and _ (Some False) = Some False"
| "sql_and (Some True) (Some True) = Some True"
| "sql_and _ _ = None"

fun sql_or :: "bool option \<Rightarrow> bool option \<Rightarrow> bool option" where
  "sql_or (Some True) _ = Some True"
| "sql_or _ (Some True) = Some True"
| "sql_or (Some False) (Some False) = Some False"
| "sql_or _ _ = None"

fun eval_cond :: "tag_row \<Rightarrow> cond \<Rightarrow> bool option" where
  "eval_cond row (IsNull c) = Some (column row c = None)"
| "eval_cond row (NotEq c v) = map_option (\<lambda>x. x \<noteq> v) (column row c)"
| "eval_cond row (Eq c v) = map_option (\<lambda>x. x = v) (column row c)"
| "eval_cond row Automatic = automatic row"
| "eval_cond row NullLiteral = None"
| "eval_cond row (Not c) = sql_not (eval_cond row c)"
| "eval_cond row (Both a b) = sql_and (eval_cond row a) (eval_cond row b)"
| "eval_cond row (Either a b) = sql_or (eval_cond row a) (eval_cond row b)"
| "eval_cond row (AnyOf cs) = fold (\<lambda>c acc. sql_or acc (eval_cond row c)) cs (Some False)"
| "eval_cond row (Paren c) = eval_cond row c"

definition rows_of :: "db \<Rightarrow> int \<Rightarrow> source \<Rightarrow> tag_row list" where
  "rows_of d rid src =
     (case src of
        FromTags \<Rightarrow>
          map (\<lambda>t. \<lparr>what = tag_what t, detail = tag_detail t, automatic = tag_automatic t\<rparr>)
            (filter (\<lambda>t. tag_RecordingId t = rid) (Tags d))
      | FromTrackTags \<Rightarrow>
          concat (map (\<lambda>tr.
              map (\<lambda>t. \<lparr>what = tt_what t, detail = None, automatic = tt_automatic t\<rparr>)
                (filter (\<lambda>t. tt_TrackId t = track_id tr) (TrackTags d)))
            (filter (\<lambda>tr. track_RecordingId tr = rid \<and> archivedAt tr = None) (Tracks d))))"

fun selects :: "db \<Rightarrow> int \<Rightarrow> query \<Rightarrow> tag_row list" where
  "selects d rid (Select src cs) =
     filter (\<lambda>row. list_all (\<lambda>c. eval_cond row c = Some True) cs) (rows_of d rid src)"

fun holds :: "db \<Rightarrow> int \<Rightarrow> pred \<Rightarrow> bool" where
  "holds d rid NoCondition = True"
| "holds d rid (Exists spaced q) = (selects d rid q \<noteq> [])"
| "holds d rid (PNot p) = (\<not> holds d rid p)"
| "holds d rid (PBoth p q) = (holds d rid p \<and> holds d rid q)"
| "holds d rid (PEither p q) = (holds d rid p \<or> holds d rid q)"
| "holds d rid (PParen p) = holds d rid p"

section \<open>Properties of rows and a sample store\<close>

text \<open>The value of a column of the row with a given primary key.\<close>

definition row_attr :: "db \<Rightarrow> int \<Rightarrow> string \<Rightarrow> json option" where
  "row_attr d i name = map_option (\<lambda>r. get_attr r name) (findOne_id d i)"

text \<open>The entries of a report's \<^verbatim>\<open>fieldUpdates\<close> and the attribute names they assign.\<close>

definition fieldUpdates_of :: "result_field \<Rightarrow> (string \<times> json) list" where
  "fieldUpdates_of res = (case res of Parsed fieldUpdates \<Rightarrow> fieldUpdates | _ \<Rightarrow> [])"

definition assigned :: "result_field \<Rightarrow> string list" where
  "assigned res = map fst (fieldUpdates_of res)"

text \<open>The job key and the processing start time are both null or both set.\<close>

definition claim_pair_ok :: "recording \<Rightarrow> bool" where
  "claim_pair_ok r \<longleftrightarrow> (jobKey r = JNull) = (processingStartTime r = JNull)"

text \<open>
  PostgreSQL's order of the \<^verbatim>\<open>recordingDateTime\<close> column, a time being the number
  of its milliseconds: a row without a time comes after every row with one in
  ascending order, and so first under \<^verbatim>\<open>DESC\<close>.
\<close>

definition time_key :: "json \<Rightarrow> bool \<times> real" where
  "time_key v = (case v of JNum n \<Rightarrow> (False, n) | _ \<Rightarrow> (True, 0))"

text \<open>
  A store with one audio recording waiting for \<^verbatim>\<open>toMp3\<close>, the same store after a
  worker has claimed that recording with the job key \<^verbatim>\<open>T\<close>, and the worker's
  reports. The store refuses every write that is left to it, and no assignment under
  a path succeeds in it.
\<close>

definition no_values :: "string \<Rightarrow> json" where
  "no_values name = JNull"

definition no_writes :: "string \<Rightarrow> json \<Rightarrow> written" where
  "no_writes name v = Refused"

definition no_path_set :: "json \<Rightarrow> string list \<Rightarrow> json \<Rightarrow> json option" where
  "no_path_set j path v = None"

definition audio_row :: recording where
  "audio_row =
     \<lparr>rec_id = 1,
      dataValues = no_values(''type'' := JString ''audio'',
                             ''processingState'' := JString ''toMp3'',
                             ''recordingDateTime'' := JNum 1000,
                             ''fileKey'' := JString ''f1'')\<rparr>"

definition audio_db :: db where
  "audio_db = \<lparr>Recordings = [audio_row], Tags = [], Tracks = [], TrackTags = [],
                writes = no_writes, path_set = no_path_set\<rparr>"

definition claimed_db :: db where
  "claimed_db =
     snd (getOneForProcessing time_key [] False ''T'' ''2019-06-01T00:00:00.000Z''
            ''audio'' ''toMp3'' audio_db)"

definition claimed_row :: recording where
  "claimed_row =
     \<lparr>rec_id = 1,
      dataValues = no_values(''type'' := JString ''audio'',
                             ''processingState'' := JString ''toMp3'',
                             ''recordingDateTime'' := JNum 1000,
                             ''fileKey'' := JString ''f1'',
                             ''jobKey'' := JString ''T'',
                             ''processingStartTime'' := JString ''2019-06-01T00:00:00.000Z'')\<rparr>"

definition report :: "string \<Rightarrow> bool \<Rightarrow> result_field \<Rightarrow> request" where
  "report key ok res =
     \<lparr>req_id = Some 1, req_jobKey = Some key, req_success = Some ok, req_result = res,
      req_complete = Some True, req_newProcessedFileKey = JString ''f2''\<rparr>"

text \<open>The same report without a new file key.\<close>

definition report_without_key :: "string \<Rightarrow> bool \<Rightarrow> result_field \<Rightarrow> request" where
  "report_without_key key ok res = (report key ok res)\<lparr>req_newProcessedFileKey := JUndefined\<rparr>"

text \<open>The same recording held under the job key \<^verbatim>\<open>T\<close> in its last stage.\<close>

definition finished_row :: recording where
  "finished_row =
     \<lparr>rec_id = 1,
      dataValues = no_values(''type'' := JString ''audio'',
                             ''processingState'' := JString ''FINISHED'',
                             ''recordingDateTime'' := JNum 1000,
                             ''fileKey'' := JString ''f1'',
                             ''jobKey'' := JString ''T'',
                             ''processingStartTime'' := JString ''2019-06-01T00:00:00.000Z'')\<rparr>"

definition finished_db :: db where
  "finished_db = \<lparr>Recordings = [finished_row], Tags = [], Tracks = [], TrackTags = [],
                   writes = no_writes, path_set = no_path_set\<rparr>"







text \<open>
  Tags for four recordings: 1 has a tag of its own, 2 a tag on an active track, 3 none,
  4 a tag on an archived track only.
\<close>

definition tags_db :: db where
  "tags_db =
     \<lparr>Recordings = [],
      Tags = [\<lparr>tag_RecordingId = 1, tag_what = Some ''possum'', tag_detail = None,
               tag_automatic = Some True\<rparr>],
      Tracks = [\<lparr>track_id = 10, track_RecordingId = 2, archivedAt = None\<rparr>,
                \<lparr>track_id = 11, track_RecordingId = 4, archivedAt = Some 5\<rparr>],
      TrackTags = [\<lparr>tt_TrackId = 10, tt_what = Some ''false positive'', tt_automatic = Some True\<rparr>,
                   \<lparr>tt_TrackId = 11, tt_what = Some ''cat'', tt_automatic = Some True\<rparr>],
      writes = no_writes, path_set = no_path_set\<rparr>"

section \<open>Facts about rows, updates and stages\<close>

lemma attribute_names [simp]:
  "''processingState'' \<in> set attributes" "''fileKey'' \<in> set attributes"
  "''jobKey'' \<in> set attributes" "''processingStartTime'' \<in> set attributes"
  "''additionalMetadata'' \<in> set attributes" "''processingMeta'' \<in> set attributes"
  by (simp_all add: attributes_def)

lemma string_attribute_names [simp]:
  "''processingState'' \<in> set string_attributes" "''fileKey'' \<in> set string_attributes"
  "''jobKey'' \<in> set string_attributes" "''processingStartTime'' \<notin> set string_attributes"
  by (simp_all add: string_attributes_def)

lemma comment_attribute:
  "''comment'' \<in> set attributes" "''comment'' \<in> set string_attributes"
  by (simp_all add: attributes_def string_attributes_def)

lemma rec_id_set_attr [simp]: "rec_id (set_attr n v r) = rec_id r"
  by (simp add: set_attr_def)

lemma get_set_attr:
  "get_attr (set_attr n v r) m =
     (if n = m \<and> n \<in> set attributes \<and> n \<noteq> ''id'' then v else get_attr r m)"
  by (auto simp: set_attr_def get_attr_def)

lemma get_set_attr_other: "n \<noteq> m \<Longrightarrow> get_attr (set_attr n v r) m = get_attr r m"
  by (simp add: get_set_attr)

lemma mergeAdditionalMetadata_Some:
  assumes "mergeAdditionalMetadata d v r = Some r'"
  shows "rec_id r' = rec_id r"
    and "m \<noteq> ''additionalMetadata'' \<Longrightarrow> get_attr r' m = get_attr r m"
  using assms by (auto simp: mergeAdditionalMetadata_def Let_def get_set_attr)

lemma set_name_Some:
  assumes "set_name d name v r = Some r'"
  shows "rec_id r' = rec_id r"
    and "m \<noteq> name \<Longrightarrow> m \<notin> set json_attributes \<Longrightarrow> get_attr r' m = get_attr r m"
  using assms by (auto simp: set_name_def get_set_attr split: if_splits)

lemma mergeUpdate_rec_id: "mergeUpdate d fu r = Some r' \<Longrightarrow> rec_id r' = rec_id r"
proof (induction d fu r rule: mergeUpdate.induct)
  case (1 d r)
  then show ?case by simp
next
  case (2 d name newValue rest r)
  from "2.prems" obtain r1 where
    r1: "(if name = ''additionalMetadata'' then mergeAdditionalMetadata d newValue r
          else set_name d name newValue r) = Some r1"
    and rest: "mergeUpdate d rest r1 = Some r'"
    by (auto split: option.splits)
  have "rec_id r1 = rec_id r"
    using r1 mergeAdditionalMetadata_Some(1) set_name_Some(1) by (auto split: if_splits)
  with "2.IH" [OF r1 rest] show ?case by simp
qed

lemma get_mergeUpdate:
  "mergeUpdate d fu r = Some r' \<Longrightarrow> m \<notin> fst ` set fu \<Longrightarrow> m \<notin> set json_attributes \<Longrightarrow>
   get_attr r' m = get_attr r m"
proof (induction d fu r rule: mergeUpdate.induct)
  case (1 d r)
  then show ?case by simp
next
  case (2 d name newValue rest r)
  from "2.prems"(1) obtain r1 where
    r1: "(if name = ''additionalMetadata'' then mergeAdditionalMetadata d newValue r
          else set_name d name newValue r) = Some r1"
    and rest: "mergeUpdate d rest r1 = Some r'"
    by (auto split: option.splits)
  have nm: "m \<noteq> name" "m \<notin> fst ` set rest" using "2.prems"(2) by auto
  have ma: "m \<noteq> ''additionalMetadata''" using "2.prems"(3) by (auto simp: json_attributes_def)
  have "get_attr r1 m = get_attr r m"
  proof (cases "name = ''additionalMetadata''")
    case True
    with r1 have "mergeAdditionalMetadata d newValue r = Some r1" by simp
    from mergeAdditionalMetadata_Some(2) [OF this ma] show ?thesis .
  next
    case False
    with r1 have "set_name d name newValue r = Some r1" by simp
    from set_name_Some(2) [OF this nm(1) "2.prems"(3)] show ?thesis .
  qed
  with "2.IH" [OF r1 rest nm(2) "2.prems"(3)] show ?case by simp
qed

lemma find_rec_id: "find (\<lambda>r. rec_id r = i) xs = Some r \<Longrightarrow> rec_id r = i \<and> r \<in> set xs"
  by (induction xs) (auto split: if_splits)

lemma findOne_id_save:
  "findOne_id d i = Some r \<Longrightarrow> rec_id r' = i \<Longrightarrow> findOne_id (save r' d) i = Some r'"
proof -
  have "find (\<lambda>r. rec_id r = i) xs = Some r \<Longrightarrow> rec_id r' = i \<Longrightarrow>
        find (\<lambda>r. rec_id r = i) (map (\<lambda>x. if rec_id x = rec_id r' then r' else x) xs) = Some r'" for xs
    by (induction xs) (auto split: if_splits)
  then show "findOne_id d i = Some r \<Longrightarrow> rec_id r' = i \<Longrightarrow> findOne_id (save r' d) i = Some r'"
    by (simp add: findOne_id_def save_def)
qed

lemma find_map_rows:
  "(\<And>x. rec_id (f x) = rec_id x) \<Longrightarrow>
   find (\<lambda>r. rec_id r = i) (map f xs) = map_option f (find (\<lambda>r. rec_id r = i) xs)"
  by (induction xs) auto

lemma findOne_id_rec_id: "findOne_id d i = Some r \<Longrightarrow> rec_id r = i"
  using find_rec_id [of i "Recordings d" r] by (simp add: findOne_id_def)

lemma findOne_id_mem: "findOne_id d i = Some r \<Longrightarrow> r \<in> set (Recordings d)"
  using find_rec_id [of i "Recordings d" r] by (simp add: findOne_id_def)

text \<open>The row of a saved instance after \<open>store_changes\<close>.\<close>

lemma store_changes_row:
  assumes "store_changes original inst d = Some d'" and "findOne_id d i = Some x"
    and "rec_id inst = i"
  shows "row_attr d' i name =
           Some (case written_value d original inst name of
                   Stored v \<Rightarrow> v
                 | _ \<Rightarrow> get_attr x name)"
proof -
  let ?f = "\<lambda>x. if rec_id x = rec_id inst
                then x\<lparr>dataValues :=
                         (\<lambda>name. case written_value d original inst name of
                                    Stored v \<Rightarrow> v
                                  | _ \<Rightarrow> dataValues x name)\<rparr>
                else x"
  have d': "d' = d\<lparr>Recordings := map ?f (Recordings d)\<rparr>"
    using assms(1) by (simp add: store_changes_def split: if_splits)
  have "findOne_id d' i = map_option ?f (findOne_id d i)"
    unfolding d' findOne_id_def by (simp add: find_map_rows)
  with assms(2) findOne_id_rec_id [OF assms(2)] assms(3) show ?thesis
    by (simp add: row_attr_def get_attr_def split: written.splits)
qed

lemma store_changes_rows:
  assumes "store_changes original inst d = Some d'" and "r' \<in> set (Recordings d')"
  shows "r' \<in> set (Recordings d) \<or>
         (\<exists>x\<in>set (Recordings d).
            r' = x\<lparr>dataValues :=
                     (\<lambda>name. case written_value d original inst name of
                                Stored v \<Rightarrow> v
                              | _ \<Rightarrow> dataValues x name)\<rparr>)"
  using assms by (auto simp: store_changes_def split: if_splits)

lemma store_changes_accepts:
  "(\<And>name. written_value d original inst name \<noteq> Refused) \<Longrightarrow>
   \<exists>d'. store_changes original inst d = Some d'"
  by (simp add: store_changes_def list_ex_iff)

lemma store_changes_refused:
  "name \<in> set attributes \<Longrightarrow> written_value d original inst name = Refused \<Longrightarrow>
   store_changes original inst d = None"
  by (auto simp: store_changes_def list_ex_iff)

lemma kept_stored:
  assumes "name \<in> set string_attributes" and "name \<in> set attributes"
    and "get_attr inst name = v" and "kept_as_given v"
  shows "(case written_value d original inst name of
            Stored v' \<Rightarrow> v'
          | _ \<Rightarrow> get_attr original name) = v"
    and "written_value d original inst name \<noteq> Refused"
  using assms by (auto simp: written_value_def write_value_def kept_as_given_def)

lemma undefined_ignored:
  "get_attr inst name = JUndefined \<Longrightarrow> written_value d original inst name = Ignored"
  by (simp add: written_value_def)

lemma unchanged_ignored:
  "get_attr inst name = get_attr original name \<Longrightarrow> written_value d original inst name = Ignored"
  by (simp add: written_value_def)

lemma start_time_cleared:
  assumes "processingStartTime inst = JNull"
  shows "(case written_value d original inst ''processingStartTime'' of
            Stored v' \<Rightarrow> v'
          | _ \<Rightarrow> processingStartTime original) = JNull"
    and "written_value d original inst ''processingStartTime'' \<noteq> Refused"
  using assms by (auto simp: written_value_def write_value_def)

lemma index_from_append:
  "s \<notin> set pre \<Longrightarrow> index_from i (pre @ s # rest) s = i + int (length pre)"
  by (induction pre arbitrary: i) auto

lemma index_from_absent: "s \<notin> set jobs \<Longrightarrow> index_from i jobs s = -1"
  by (induction jobs arbitrary: i) auto

lemma nextJob_successor:
  "s \<notin> set pre \<Longrightarrow> nextJob (pre @ s # nxt # post) (JString s) = JString nxt"
proof -
  assume a: "s \<notin> set pre"
  have n: "nat (int (length pre) + 1) = Suc (length pre)" by simp
  have "(pre @ s # nxt # post) ! Suc (length pre) = nxt"
    by (simp add: nth_append)
  with a n show ?thesis
    by (simp add: nextJob_def indexOf_def index_from_append at_index_def)
qed

lemma nextJob_terminal:
  "s \<notin> set pre \<Longrightarrow> nextJob (pre @ [s]) (JString s) = JUndefined"
  by (simp add: nextJob_def indexOf_def index_from_append at_index_def)

lemma nextJob_range:
  "nextJob jobs state = JUndefined \<or> (\<exists>s\<in>set jobs. nextJob jobs state = JString s)"
proof -
  have m: "0 \<le> i \<and> i < int (length jobs) \<longrightarrow> jobs ! nat i \<in> set jobs" for i
    by (simp add: nat_less_iff)
  show ?thesis
    using m [of "indexOf jobs state + 1"] by (simp add: nextJob_def at_index_def)
qed

lemma stage_names_kept:
  "processingStates ty = Some jobs \<Longrightarrow> s \<in> set jobs \<Longrightarrow> kept_as_given (JString s)"
  by (auto simp: processingStates_def kept_as_given_def split: if_splits)

lemma row_attr_save:
  "findOne_id d i = Some r \<Longrightarrow> rec_id r' = i \<Longrightarrow> row_attr (save r' d) i name = Some (get_attr r' name)"
  by (simp add: row_attr_def findOne_id_save)

lemma claimed_db_row: "findOne_id claimed_db 1 = Some claimed_row"
  by (simp add: claimed_db_def getOneForProcessing_def candidates_def audio_db_def audio_row_def claimable_def
      get_attr_def no_values_def Let_def save_fields_def set_attr_def project_def findOne_id_def
      processingAttributes_def claimed_row_def time_key_def)

lemma claimed_row_attrs:
  "rec_id claimed_row = 1"
  "rtype claimed_row = JString ''audio''"
  "processingState claimed_row = JString ''toMp3''"
  "jobKey claimed_row = JString ''T''"
  "processingStartTime claimed_row = JString ''2019-06-01T00:00:00.000Z''"
  "fileKey claimed_row = JString ''f1''"
  by (simp_all add: claimed_row_def get_attr_def no_values_def)

lemma report_fields:
  "req_id (report k ok res) = Some 1"
  "req_jobKey (report k ok res) = Some k"
  "req_success (report k ok res) = Some ok"
  "req_result (report k ok res) = res"
  "req_complete (report k ok res) = Some True"
  "req_newProcessedFileKey (report k ok res) = JString ''f2''"
  \<open>errorMessages (report k ok res) = (if res = NotJSON then [''\'result\' field was not a valid JSON.''] else [])\<close>
  by (simp_all add: report_def errorMessages_def)

lemma report_without_key_fields:
  "req_id (report_without_key k ok res) = Some 1"
  "req_jobKey (report_without_key k ok res) = Some k"
  "req_success (report_without_key k ok res) = Some ok"
  "req_result (report_without_key k ok res) = res"
  "req_complete (report_without_key k ok res) = Some True"
  "req_newProcessedFileKey (report_without_key k ok res) = JUndefined"
  \<open>errorMessages (report_without_key k ok res) = (if res = NotJSON then [''\'result\' field was not a valid JSON.''] else [])\<close>
  by (simp_all add: report_without_key_def report_def errorMessages_def)


text \<open>
  C3. A report whose job key differs from the one stored on the recording is answered
  with status 400 and the store is returned as it was: no column of the recording
  (processing state, file key, job key, start time, metadata) and no other row changes.
\<close>

theorem report_token_mismatch:
  assumes "req_id req = Some i" and "findOne_id d i = Some r"
    and "req_jobKey req = Some k" and "JString k \<noteq> jobKey r"
  shows \<open>put_fileProcessing req d =
           (Response 400 (if errorMessages req = []
                          then [''\'jobKey\' given did not match the database..'']
                          else errorMessages req), d)\<close>
  using assms by (simp add: put_fileProcessing_def)

text \<open>
  C5. A report with \<^verbatim>\<open>success = false\<close> and the stored job key clears the job
  key and the processing start time of the recording, whatever they and the processing
  state were, and leaves every other column as it was.
\<close>

theorem report_failure:
  assumes "errorMessages req = []"
    and "req_id req = Some i" and "findOne_id d i = Some r"
    and "req_jobKey req = Some k" and "jobKey r = JString k"
    and "req_success req = Some False"
  shows "put_fileProcessing req d =
           (Response 200 [''Processing failed.''],
            save (r\<lparr>dataValues := (dataValues r)(''processingStartTime'' := JNull, ''jobKey'' := JNull)\<rparr>) d)
         \<and> row_attr (snd (put_fileProcessing req d)) i ''jobKey'' = Some JNull
         \<and> row_attr (snd (put_fileProcessing req d)) i ''processingStartTime'' = Some JNull
         \<and> (\<forall>name. name \<noteq> ''jobKey'' \<and> name \<noteq> ''processingStartTime'' \<longrightarrow>
              row_attr (snd (put_fileProcessing req d)) i name = Some (get_attr r name))"
proof -
  let ?r' = "r\<lparr>dataValues := (dataValues r)(''processingStartTime'' := JNull, ''jobKey'' := JNull)\<rparr>"
  have eq: "put_fileProcessing req d = (Response 200 [''Processing failed.''], save ?r' d)"
    using assms by (simp add: put_fileProcessing_def set_attr_def Let_def)
  have id: "rec_id ?r' = i"
    using find_rec_id [OF assms(3) [unfolded findOne_id_def]] by simp
  show ?thesis
    using eq row_attr_save [OF assms(3) id] by (simp add: get_attr_def)
qed


theorem report_token_mismatch_witness:
  \<open>req_id (report ''stale'' True NoResult) = Some 1 \<and>
   findOne_id claimed_db 1 = Some claimed_row \<and>
   req_jobKey (report ''stale'' True NoResult) = Some ''stale'' \<and>
   JString ''stale'' \<noteq> jobKey claimed_row \<and>
   put_fileProcessing (report ''stale'' True NoResult) claimed_db =
     (Response 400 [''\'jobKey\' given did not match the database..''], claimed_db)\<close>
proof -
  have h4: "JString ''stale'' \<noteq> jobKey claimed_row"
    by (simp add: claimed_row_attrs)
  have \<open>put_fileProcessing (report ''stale'' True NoResult) claimed_db =
     (Response 400 (if errorMessages (report ''stale'' True NoResult) = []
                    then [''\'jobKey\' given did not match the database..'']
                    else errorMessages (report ''stale'' True NoResult)), claimed_db)\<close>
    by (rule report_token_mismatch [OF report_fields(1) claimed_db_row report_fields(2) h4])
  then have c: \<open>put_fileProcessing (report ''stale'' True NoResult) claimed_db =
     (Response 400 [''\'jobKey\' given did not match the database..''], claimed_db)\<close>
    by (simp add: report_fields)
  show ?thesis
    by (intro conjI report_fields(1) claimed_db_row report_fields(2) h4 c)
qed

theorem report_failure_witness:
  "errorMessages (report ''T'' False NoResult) = [] \<and>
   findOne_id claimed_db 1 = Some claimed_row \<and>
   jobKey claimed_row = JString ''T'' \<and>
   processingState claimed_row = JString ''toMp3'' \<and>
   fst (put_fileProcessing (report ''T'' False NoResult) claimed_db) =
     Response 200 [''Processing failed.''] \<and>
   row_attr (snd (put_fileProcessing (report ''T'' False NoResult) claimed_db)) 1 ''jobKey'' = Some JNull \<and>
   row_attr (snd (put_fileProcessing (report ''T'' False NoResult) claimed_db)) 1 ''processingStartTime'' = Some JNull \<and>
   row_attr (snd (put_fileProcessing (report ''T'' False NoResult) claimed_db)) 1 ''processingState'' = Some (JString ''toMp3'')"
proof -
  let ?req = "report ''T'' False NoResult"
  have h1: "errorMessages ?req = []" by (simp add: report_fields)
  note t = report_failure [OF h1 report_fields(1) claimed_db_row report_fields(2)
                             claimed_row_attrs(4) report_fields(3)]
  have a: "fst (put_fileProcessing ?req claimed_db) = Response 200 [''Processing failed.'']"
    using t [THEN conjunct1] by simp
  note b = t [THEN conjunct2, THEN conjunct1]
  note c = t [THEN conjunct2, THEN conjunct2, THEN conjunct1]
  note g = t [THEN conjunct2, THEN conjunct2, THEN conjunct2, rule_format, of "''processingState''"]
  have d: "row_attr (snd (put_fileProcessing ?req claimed_db)) 1 ''processingState''
             = Some (JString ''toMp3'')"
    using g by (simp add: claimed_row_attrs)
  show ?thesis
    by (intro conjI h1 claimed_db_row claimed_row_attrs(4) claimed_row_attrs(3) a b c d)
qed

text \<open>What a report of success does, once the request is valid and the job key matches.\<close>

lemma put_success:
  assumes "errorMessages req = []"
    and "req_id req = Some i" and "findOne_id d i = Some r"
    and "req_jobKey req = Some k" and "jobKey r = JString k"
    and "req_success req = Some True"
    and "processingStates (rtype r) = Some jobs"
  shows "put_fileProcessing req d =
    (case mergeUpdate d (fieldUpdates_of (req_result req))
            (if req_complete req = Some True
             then set_attr ''processingStartTime'' JNull
                    (set_attr ''jobKey'' JNull
                      (set_attr ''fileKey'' (req_newProcessedFileKey req)
                        (set_attr ''processingState'' (nextJob jobs (processingState r)) r)))
             else set_attr ''fileKey'' (req_newProcessedFileKey req)
                    (set_attr ''processingState'' (nextJob jobs (processingState r)) r)) of
       None \<Rightarrow> (UpdateError, d)
     | Some r4 \<Rightarrow>
         (case store_changes r r4 d of
            None \<Rightarrow> (SaveError, d)
          | Some d' \<Rightarrow> (Response 200 [''Processing finished.''], d')))"
  using assms
  by (cases "req_result req") (simp_all add: put_fileProcessing_def Let_def fieldUpdates_of_def)

lemma put_success_cases:
  assumes "errorMessages req = []"
    and "req_id req = Some i" and "findOne_id d i = Some r"
    and "req_jobKey req = Some k" and "jobKey r = JString k"
    and "req_success req = Some True"
    and "processingStates (rtype r) = Some jobs"
  obtains (refused) "fst (put_fileProcessing req d) \<noteq> Response 200 [''Processing finished.'']"
      "snd (put_fileProcessing req d) = d"
    | (stored) r4 d' where
      "mergeUpdate d (fieldUpdates_of (req_result req))
            (if req_complete req = Some True
             then set_attr ''processingStartTime'' JNull
                    (set_attr ''jobKey'' JNull
                      (set_attr ''fileKey'' (req_newProcessedFileKey req)
                        (set_attr ''processingState'' (nextJob jobs (processingState r)) r)))
             else set_attr ''fileKey'' (req_newProcessedFileKey req)
                    (set_attr ''processingState'' (nextJob jobs (processingState r)) r)) = Some r4"
      "store_changes r r4 d = Some d'"
      "put_fileProcessing req d = (Response 200 [''Processing finished.''], d')"
  using put_success [OF assms] by (auto split: option.splits)

text \<open>
  An instance that differs from the loaded row in the four processing columns only,
  with values that those columns keep as given, is saved.
\<close>

lemma instance_accepted:
  assumes "\<And>name. name \<notin> {''processingState'', ''fileKey'', ''jobKey'', ''processingStartTime''}
             \<Longrightarrow> get_attr inst name = get_attr r name"
    and "processingState inst = JUndefined \<or> kept_as_given (processingState inst)"
    and "fileKey inst = JUndefined \<or> kept_as_given (fileKey inst)"
    and "jobKey inst = jobKey r \<or> kept_as_given (jobKey inst)"
    and "processingStartTime inst = JNull \<or> processingStartTime inst = processingStartTime r"
  shows "written_value d r inst name \<noteq> Refused"
proof -
  consider "name = ''processingState''" | "name = ''fileKey''" | "name = ''jobKey''"
    | "name = ''processingStartTime''"
    | "name \<notin> {''processingState'', ''fileKey'', ''jobKey'', ''processingStartTime''}"
    by auto
  then show ?thesis
  proof cases
    case 1
    from assms(2) show ?thesis
    proof
      assume "processingState inst = JUndefined"
      then show ?thesis unfolding 1 by (simp add: undefined_ignored)
    next
      assume "kept_as_given (processingState inst)"
      then show ?thesis
        unfolding 1 by (intro kept_stored(2) [where v = "processingState inst"]) simp_all
    qed
  next
    case 2
    from assms(3) show ?thesis
    proof
      assume "fileKey inst = JUndefined"
      then show ?thesis unfolding 2 by (simp add: undefined_ignored)
    next
      assume "kept_as_given (fileKey inst)"
      then show ?thesis
        unfolding 2 by (intro kept_stored(2) [where v = "fileKey inst"]) simp_all
    qed
  next
    case 3
    from assms(4) show ?thesis
    proof
      assume "jobKey inst = jobKey r"
      then show ?thesis unfolding 3 by (simp add: unchanged_ignored)
    next
      assume "kept_as_given (jobKey inst)"
      then show ?thesis
        unfolding 3 by (intro kept_stored(2) [where v = "jobKey inst"]) simp_all
    qed
  next
    case 4
    from assms(5) show ?thesis
    proof
      assume "processingStartTime inst = JNull"
      then show ?thesis unfolding 4 by (rule start_time_cleared(2))
    next
      assume "processingStartTime inst = processingStartTime r"
      then show ?thesis unfolding 4 by (simp add: unchanged_ignored)
    qed
  next
    case 5
    from assms(1) [OF 5] show ?thesis by (simp add: unchanged_ignored)
  qed
qed

text \<open>
  C4, as claimed, fails. The field updates of a report are assigned after the handler
  has set the four columns, and the whole update is saved or not at all. On the
  recording claimed in \<^verbatim>\<open>toMp3\<close>, a successful, complete report with the new file
  key \<^verbatim>\<open>f2\<close> whose field updates name \<^verbatim>\<open>processingState\<close> and
  \<^verbatim>\<open>fileKey\<close> is answered with status 200 and leaves the recording in
  \<^verbatim>\<open>toMp3\<close> with the file key \<^verbatim>\<open>f9\<close>; and such a report whose field updates
  give \<^verbatim>\<open>comment\<close> an object is not answered and changes nothing, the save being
  rejected.
\<close>

theorem report_success_overridden:
  "findOne_id claimed_db 1 = Some claimed_row \<and>
   processingState claimed_row = JString ''toMp3'' \<and>
   nextJob [''toMp3'', ''FINISHED''] (JString ''toMp3'') = JString ''FINISHED'' \<and>
   fst (put_fileProcessing
          (report ''T'' True (Parsed [(''processingState'', JString ''toMp3''),
                                      (''fileKey'', JString ''f9'')])) claimed_db)
     = Response 200 [''Processing finished.''] \<and>
   row_attr (snd (put_fileProcessing
          (report ''T'' True (Parsed [(''processingState'', JString ''toMp3''),
                                      (''fileKey'', JString ''f9'')])) claimed_db))
       1 ''processingState'' = Some (JString ''toMp3'') \<and>
   row_attr (snd (put_fileProcessing
          (report ''T'' True (Parsed [(''processingState'', JString ''toMp3''),
                                      (''fileKey'', JString ''f9'')])) claimed_db))
       1 ''fileKey'' = Some (JString ''f9'') \<and>
   put_fileProcessing (report ''T'' True (Parsed [(''comment'', JObject [])])) claimed_db
     = (SaveError, claimed_db)"
proof -
  let ?fu = "[(''processingState'', JString ''toMp3''), (''fileKey'', JString ''f9'')]"
  let ?req = "report ''T'' True (Parsed ?fu)"
  let ?r3 = "set_attr ''processingStartTime'' JNull
               (set_attr ''jobKey'' JNull
                 (set_attr ''fileKey'' (JString ''f2'')
                   (set_attr ''processingState'' (JString ''FINISHED'') claimed_row)))"
  let ?r4 = "set_attr ''fileKey'' (JString ''f9'') (set_attr ''processingState'' (JString ''toMp3'') ?r3)"
  have n: "nextJob [''toMp3'', ''FINISHED''] (JString ''toMp3'') = JString ''FINISHED''"
    by (simp add: nextJob_def indexOf_def at_index_def)
  have h1: "errorMessages ?req = []" by (simp add: report_fields)
  have h7: "processingStates (rtype claimed_row) = Some [''toMp3'', ''FINISHED'']"
    by (simp add: claimed_row_attrs processingStates_def)
  have mu: "mergeUpdate claimed_db ?fu ?r3 = Some ?r4"
    by (simp add: set_name_def)
  have "written_value claimed_db claimed_row ?r4 name \<noteq> Refused" for name
  proof (rule instance_accepted)
    show "get_attr ?r4 n = get_attr claimed_row n"
      if "n \<notin> {''processingState'', ''fileKey'', ''jobKey'', ''processingStartTime''}" for n
      using that by (auto simp: get_set_attr)
    show "processingState ?r4 = JUndefined \<or> kept_as_given (processingState ?r4)"
      by (simp add: get_set_attr kept_as_given_def)
    show "fileKey ?r4 = JUndefined \<or> kept_as_given (fileKey ?r4)"
      by (simp add: get_set_attr kept_as_given_def)
    show "jobKey ?r4 = jobKey claimed_row \<or> kept_as_given (jobKey ?r4)"
      by (simp add: get_set_attr kept_as_given_def)
    show "processingStartTime ?r4 = JNull \<or>
          processingStartTime ?r4 = processingStartTime claimed_row"
      by (simp add: get_set_attr)
  qed
  then obtain d' where sc: "store_changes claimed_row ?r4 claimed_db = Some d'"
    using store_changes_accepts [of claimed_db claimed_row ?r4] by auto
  have pe: "put_fileProcessing ?req claimed_db = (Response 200 [''Processing finished.''], d')"
    unfolding put_success [OF h1 report_fields(1) claimed_db_row report_fields(2)
                claimed_row_attrs(4) report_fields(3) h7]
    by (simp add: report_fields fieldUpdates_of_def claimed_row_attrs n mu sc del: mergeUpdate.simps)
  have id: "rec_id ?r4 = 1" by (simp add: claimed_row_attrs)
  note row = store_changes_row [OF sc claimed_db_row id]
  have p1: "fst (put_fileProcessing ?req claimed_db) = Response 200 [''Processing finished.'']"
    unfolding pe by simp
  have p2: "row_attr (snd (put_fileProcessing ?req claimed_db)) 1 ''processingState''
              = Some (JString ''toMp3'')"
    unfolding pe snd_conv row
    by (simp add: written_value_def get_set_attr claimed_row_attrs)
  have p3: "row_attr (snd (put_fileProcessing ?req claimed_db)) 1 ''fileKey'' = Some (JString ''f9'')"
    unfolding pe snd_conv row
    by (simp add: written_value_def write_value_def kept_as_given_def get_set_attr claimed_row_attrs)
  let ?req' = "report ''T'' True (Parsed [(''comment'', JObject [])])"
  let ?r5 = "set_attr ''comment'' (JObject []) ?r3"
  have h1': "errorMessages ?req' = []" by (simp add: report_fields)
  have mu': "mergeUpdate claimed_db [(''comment'', JObject [])] ?r3 = Some ?r5"
    by (simp add: set_name_def comment_attribute)
  have g: "get_attr ?r5 ''comment'' = JObject []"
    by (simp add: get_set_attr comment_attribute)
  have o: "get_attr claimed_row ''comment'' = JNull"
    by (simp add: claimed_row_def get_attr_def no_values_def)
  have ref: "written_value claimed_db claimed_row ?r5 ''comment'' = Refused"
    by (simp add: written_value_def write_value_def kept_as_given_def comment_attribute g o)
  have sc': "store_changes claimed_row ?r5 claimed_db = None"
    by (rule store_changes_refused [OF comment_attribute(1) ref])
  have p4: "put_fileProcessing ?req' claimed_db = (SaveError, claimed_db)"
    unfolding put_success [OF h1' report_fields(1) claimed_db_row report_fields(2)
                claimed_row_attrs(4) report_fields(3) h7]
    by (simp add: report_fields fieldUpdates_of_def claimed_row_attrs n mu' sc' del: mergeUpdate.simps)
  show ?thesis
    by (intro conjI claimed_db_row claimed_row_attrs(3) n p1 p2 p3 p4)
qed

text \<open>
  C4, amended. A report with the stored job key, \<^verbatim>\<open>success = true\<close> and
  \<^verbatim>\<open>complete = true\<close>, on a recording whose state \<open>s\<close> is followed by
  \<open>nxt\<close> in the stage list of its type, whose field updates (if any) assign none of
  the four columns, and whose new file key, if it has one, is a value the column keeps
  as given. Without field updates the report is answered with status 200. Whenever it
  is answered with status 200, the state has become \<open>nxt\<close>, the file key the new key
  (it stays when the report has none), and job key and start time are null. Whenever
  it is not, the store is as it was.
\<close>

theorem report_success_complete:
  assumes "errorMessages req = []"
    and "req_id req = Some i" and "findOne_id d i = Some r"
    and "req_jobKey req = Some k" and "jobKey r = JString k"
    and "req_success req = Some True" and "req_complete req = Some True"
    and "processingStates (rtype r) = Some (pre @ s # nxt # post)" and "s \<notin> set pre"
    and "processingState r = JString s"
    and "set (assigned (req_result req)) \<inter>
           {''processingState'', ''fileKey'', ''jobKey'', ''processingStartTime''} = {}"
    and "req_newProcessedFileKey req = JUndefined \<or> kept_as_given (req_newProcessedFileKey req)"
  shows "(assigned (req_result req) = [] \<longrightarrow>
            fst (put_fileProcessing req d) = Response 200 [''Processing finished.'']) \<and>
         (fst (put_fileProcessing req d) = Response 200 [''Processing finished.''] \<longrightarrow>
            row_attr (snd (put_fileProcessing req d)) i ''processingState'' = Some (JString nxt) \<and>
            row_attr (snd (put_fileProcessing req d)) i ''fileKey''
              = Some (if req_newProcessedFileKey req = JUndefined then fileKey r
                      else req_newProcessedFileKey req) \<and>
            row_attr (snd (put_fileProcessing req d)) i ''jobKey'' = Some JNull \<and>
            row_attr (snd (put_fileProcessing req d)) i ''processingStartTime'' = Some JNull) \<and>
         (fst (put_fileProcessing req d) \<noteq> Response 200 [''Processing finished.''] \<longrightarrow>
            snd (put_fileProcessing req d) = d)"
proof (intro conjI impI)
  let ?fu = "fieldUpdates_of (req_result req)"
  let ?r3 = "set_attr ''processingStartTime'' JNull
               (set_attr ''jobKey'' JNull
                 (set_attr ''fileKey'' (req_newProcessedFileKey req)
                   (set_attr ''processingState''
                      (nextJob (pre @ s # nxt # post) (processingState r)) r)))"
  have eq: "put_fileProcessing req d =
      (case mergeUpdate d ?fu ?r3 of
         None \<Rightarrow> (UpdateError, d)
       | Some r4 \<Rightarrow>
           (case store_changes r r4 d of
              None \<Rightarrow> (SaveError, d)
            | Some d' \<Rightarrow> (Response 200 [''Processing finished.''], d')))"
    using put_success [OF assms(1-6) assms(8)] assms(7) by simp
  have nx: "nextJob (pre @ s # nxt # post) (processingState r) = JString nxt"
    using assms(9,10) by (simp add: nextJob_successor)
  have kn: "kept_as_given (JString nxt)"
    by (rule stage_names_kept [OF assms(8)]) simp
  have r3: "processingState ?r3 = JString nxt" "fileKey ?r3 = req_newProcessedFileKey req"
    "jobKey ?r3 = JNull" "processingStartTime ?r3 = JNull"
    by (simp_all add: get_set_attr nx)
  {
    assume "assigned (req_result req) = []"
    then have fu: "?fu = []" by (simp add: assigned_def)
    have "written_value d r ?r3 name \<noteq> Refused" for name
    proof (rule instance_accepted)
      show "get_attr ?r3 n = get_attr r n"
        if "n \<notin> {''processingState'', ''fileKey'', ''jobKey'', ''processingStartTime''}" for n
        using that by (auto simp: get_set_attr)
      show "processingState ?r3 = JUndefined \<or> kept_as_given (processingState ?r3)"
        unfolding r3 using kn by simp
      show "fileKey ?r3 = JUndefined \<or> kept_as_given (fileKey ?r3)"
        unfolding r3 by (rule assms(12))
      show "jobKey ?r3 = jobKey r \<or> kept_as_given (jobKey ?r3)"
        unfolding r3 by (simp add: kept_as_given_def)
      show "processingStartTime ?r3 = JNull \<or> processingStartTime ?r3 = processingStartTime r"
        unfolding r3 by simp
    qed
    then obtain d' where "store_changes r ?r3 d = Some d'"
      using store_changes_accepts [of d r ?r3] by auto
    then show "fst (put_fileProcessing req d) = Response 200 [''Processing finished.'']"
      unfolding eq fu by simp
  }
  {
    assume "fst (put_fileProcessing req d) \<noteq> Response 200 [''Processing finished.'']"
    then show "snd (put_fileProcessing req d) = d"
      unfolding eq by (auto split: option.splits)
  }
  assume ok: "fst (put_fileProcessing req d) = Response 200 [''Processing finished.'']"
  then obtain r4 d' where mu: "mergeUpdate d ?fu ?r3 = Some r4"
    and sc: "store_changes r r4 d = Some d'"
    and pe: "put_fileProcessing req d = (Response 200 [''Processing finished.''], d')"
    unfolding eq by (auto split: option.splits)
  have id: "rec_id r4 = i"
    using mergeUpdate_rec_id [OF mu] findOne_id_rec_id [OF assms(3)] by simp
  note row = store_changes_row [OF sc assms(3) id]
  have names: "''processingState'' \<notin> fst ` set ?fu" "''fileKey'' \<notin> fst ` set ?fu"
    "''jobKey'' \<notin> fst ` set ?fu" "''processingStartTime'' \<notin> fst ` set ?fu"
    using assms(11) by (auto simp: assigned_def)
  have js: "''processingState'' \<notin> set json_attributes" "''fileKey'' \<notin> set json_attributes"
    "''jobKey'' \<notin> set json_attributes" "''processingStartTime'' \<notin> set json_attributes"
    by (simp_all add: json_attributes_def)
  have r4: "processingState r4 = JString nxt" "fileKey r4 = req_newProcessedFileKey req"
    "jobKey r4 = JNull" "processingStartTime r4 = JNull"
    using get_mergeUpdate [OF mu names(1) js(1)] get_mergeUpdate [OF mu names(2) js(2)]
      get_mergeUpdate [OF mu names(3) js(3)] get_mergeUpdate [OF mu names(4) js(4)]
    by (simp_all add: r3)
  show "row_attr (snd (put_fileProcessing req d)) i ''processingState'' = Some (JString nxt)"
    unfolding pe snd_conv row
    using kept_stored(1) [OF string_attribute_names(1) attribute_names(1) r4(1) kn] by simp
  show "row_attr (snd (put_fileProcessing req d)) i ''fileKey''
          = Some (if req_newProcessedFileKey req = JUndefined then fileKey r
                  else req_newProcessedFileKey req)"
  proof (cases "req_newProcessedFileKey req = JUndefined")
    case True
    then show ?thesis
      unfolding pe snd_conv row using r4(2) by (simp add: undefined_ignored)
  next
    case False
    with assms(12) have "kept_as_given (req_newProcessedFileKey req)" by simp
    from kept_stored(1) [OF string_attribute_names(2) attribute_names(2) r4(2) this] False
    show ?thesis unfolding pe snd_conv row by simp
  qed
  have kn0: "kept_as_given JNull" by (simp add: kept_as_given_def)
  show "row_attr (snd (put_fileProcessing req d)) i ''jobKey'' = Some JNull"
    unfolding pe snd_conv row
    using kept_stored(1) [OF string_attribute_names(3) attribute_names(3) r4(3) kn0] by simp
  show "row_attr (snd (put_fileProcessing req d)) i ''processingStartTime'' = Some JNull"
    unfolding pe snd_conv row
    using start_time_cleared(1) [OF r4(4)] by simp
qed

theorem report_success_complete_witness:
  "errorMessages (report ''T'' True NoResult) = [] \<and>
   findOne_id claimed_db 1 = Some claimed_row \<and>
   rtype claimed_row = JString ''audio'' \<and>
   processingStates (JString ''audio'') = Some ([] @ ''toMp3'' # ''FINISHED'' # []) \<and>
   processingState claimed_row = JString ''toMp3'' \<and>
   jobKey claimed_row = JString ''T'' \<and>
   fileKey claimed_row = JString ''f1'' \<and>
   assigned (req_result (report ''T'' True NoResult)) = [] \<and>
   kept_as_given (req_newProcessedFileKey (report ''T'' True NoResult)) \<and>
   fst (put_fileProcessing (report ''T'' True NoResult) claimed_db) =
     Response 200 [''Processing finished.''] \<and>
   row_attr (snd (put_fileProcessing (report ''T'' True NoResult) claimed_db)) 1 ''processingState''
     = Some (JString ''FINISHED'') \<and>
   row_attr (snd (put_fileProcessing (report ''T'' True NoResult) claimed_db)) 1 ''fileKey''
     = Some (JString ''f2'') \<and>
   row_attr (snd (put_fileProcessing (report ''T'' True NoResult) claimed_db)) 1 ''jobKey''
     = Some JNull \<and>
   row_attr (snd (put_fileProcessing (report ''T'' True NoResult) claimed_db)) 1 ''processingStartTime''
     = Some JNull \<and>
   req_newProcessedFileKey (report_without_key ''T'' True NoResult) = JUndefined \<and>
   fst (put_fileProcessing (report_without_key ''T'' True NoResult) claimed_db) =
     Response 200 [''Processing finished.''] \<and>
   row_attr (snd (put_fileProcessing (report_without_key ''T'' True NoResult) claimed_db)) 1
       ''processingState'' = Some (JString ''FINISHED'') \<and>
   row_attr (snd (put_fileProcessing (report_without_key ''T'' True NoResult) claimed_db)) 1
       ''fileKey'' = Some (JString ''f1'')"
proof -
  let ?req = "report ''T'' True NoResult"
  let ?req' = "report_without_key ''T'' True NoResult"
  have h1: "errorMessages ?req = []" by (simp add: report_fields)
  have h1': "errorMessages ?req' = []" by (simp add: report_without_key_fields)
  have h8: "processingStates (rtype claimed_row) = Some ([] @ ''toMp3'' # ''FINISHED'' # [])"
    by (simp add: claimed_row_attrs processingStates_def)
  have h8': "processingStates (JString ''audio'') = Some ([] @ ''toMp3'' # ''FINISHED'' # [])"
    by (simp add: processingStates_def)
  have h9: "''toMp3'' \<notin> set []" by simp
  have e: "assigned (req_result ?req) = []"
    by (simp add: report_fields assigned_def fieldUpdates_of_def)
  have e': "assigned (req_result ?req') = []"
    by (simp add: report_without_key_fields assigned_def fieldUpdates_of_def)
  have h11: "set (assigned (req_result ?req)) \<inter>
           {''processingState'', ''fileKey'', ''jobKey'', ''processingStartTime''} = {}"
    by (simp add: e)
  have h11': "set (assigned (req_result ?req')) \<inter>
           {''processingState'', ''fileKey'', ''jobKey'', ''processingStartTime''} = {}"
    by (simp add: e')
  have kp: "kept_as_given (req_newProcessedFileKey ?req)"
    by (simp add: report_fields kept_as_given_def)
  have h12: "req_newProcessedFileKey ?req = JUndefined \<or> kept_as_given (req_newProcessedFileKey ?req)"
    using kp by simp
  have h12': "req_newProcessedFileKey ?req' = JUndefined \<or>
              kept_as_given (req_newProcessedFileKey ?req')"
    by (simp add: report_without_key_fields)
  note t = report_success_complete [OF h1 report_fields(1) claimed_db_row report_fields(2)
             claimed_row_attrs(4) report_fields(3) report_fields(5) h8 h9
             claimed_row_attrs(3) h11 h12]
  note t' = report_success_complete [OF h1' report_without_key_fields(1) claimed_db_row
             report_without_key_fields(2) claimed_row_attrs(4) report_without_key_fields(3)
             report_without_key_fields(5) h8 h9 claimed_row_attrs(3) h11' h12']
  note a = t [THEN conjunct1, THEN mp, OF e]
  note a' = t' [THEN conjunct1, THEN mp, OF e']
  note b = t [THEN conjunct2, THEN conjunct1, THEN mp, OF a]
  note b' = t' [THEN conjunct2, THEN conjunct1, THEN mp, OF a']
  have b2: "row_attr (snd (put_fileProcessing ?req claimed_db)) 1 ''fileKey'' = Some (JString ''f2'')"
    using b [THEN conjunct2, THEN conjunct1] by (simp add: report_fields)
  have b2': "row_attr (snd (put_fileProcessing ?req' claimed_db)) 1 ''fileKey'' = Some (JString ''f1'')"
    using b' [THEN conjunct2, THEN conjunct1]
    by (simp add: report_without_key_fields claimed_row_attrs)
  show ?thesis
    by (intro conjI h1 claimed_db_row claimed_row_attrs(2) h8' claimed_row_attrs(3)
          claimed_row_attrs(4) claimed_row_attrs(6) e kp a b [THEN conjunct1] b2
          b [THEN conjunct2, THEN conjunct2, THEN conjunct1]
          b [THEN conjunct2, THEN conjunct2, THEN conjunct2]
          report_without_key_fields(6) a' b' [THEN conjunct1] b2')
qed

lemma indexOf_absent: "state \<notin> JString ` set jobs \<Longrightarrow> indexOf jobs state = -1"
proof (cases state)
  case (JString x)
  assume "state \<notin> JString ` set jobs"
  with JString have "x \<notin> set jobs" by auto
  with JString show ?thesis by (simp add: indexOf_def index_from_absent)
qed (simp_all add: indexOf_def)

lemma nextJob_not_found:
  "state \<notin> JString ` set jobs \<Longrightarrow> nextJob jobs state = at_index jobs 0"
  by (simp add: nextJob_def indexOf_absent)

lemma finished_db_row: "findOne_id finished_db 1 = Some finished_row"
  by (simp add: finished_db_def findOne_id_def finished_row_def)

lemma finished_row_attrs:
  "rec_id finished_row = 1"
  "rtype finished_row = JString ''audio''"
  "processingState finished_row = JString ''FINISHED''"
  "jobKey finished_row = JString ''T''"
  by (simp_all add: finished_row_def get_attr_def no_values_def)

lemma audio_stages: "processingStates (JString ''audio'') = Some [''toMp3'', ''FINISHED'']"
  by (simp add: processingStates_def)

text \<open>
  A report of success without field updates, with a new file key that the column keeps
  as given or with none: it is answered with status 200, and the state is the computed
  next stage, or as it was when that is \<^verbatim>\<open>undefined\<close>.
\<close>

lemma put_success_state:
  assumes "errorMessages req = []"
    and "req_id req = Some i" and "findOne_id d i = Some r"
    and "req_jobKey req = Some k" and "jobKey r = JString k"
    and "req_success req = Some True"
    and "processingStates (rtype r) = Some jobs"
    and "assigned (req_result req) = []"
    and "req_newProcessedFileKey req = JUndefined \<or> kept_as_given (req_newProcessedFileKey req)"
  shows "fst (put_fileProcessing req d) = Response 200 [''Processing finished.''] \<and>
         row_attr (snd (put_fileProcessing req d)) i ''processingState''
           = Some (if nextJob jobs (processingState r) = JUndefined then processingState r
                   else nextJob jobs (processingState r))"
proof -
  let ?r2 = "set_attr ''fileKey'' (req_newProcessedFileKey req)
               (set_attr ''processingState'' (nextJob jobs (processingState r)) r)"
  let ?r3 = "if req_complete req = Some True
             then set_attr ''processingStartTime'' JNull (set_attr ''jobKey'' JNull ?r2)
             else ?r2"
  have fu: "fieldUpdates_of (req_result req) = []"
    using assms(8) by (simp add: assigned_def)
  have eq: "put_fileProcessing req d =
      (case store_changes r ?r3 d of
         None \<Rightarrow> (SaveError, d)
       | Some d' \<Rightarrow> (Response 200 [''Processing finished.''], d'))"
    using put_success [OF assms(1-7)] by (simp add: fu)
  have kn: "nextJob jobs (processingState r) = JUndefined
            \<or> kept_as_given (nextJob jobs (processingState r))"
    using nextJob_range [of jobs "processingState r"] stage_names_kept [OF assms(7)] by auto
  have st: "processingState ?r3 = nextJob jobs (processingState r)"
    by (simp add: get_set_attr)
  have "written_value d r ?r3 name \<noteq> Refused" for name
  proof (rule instance_accepted)
    show "get_attr ?r3 n = get_attr r n"
      if "n \<notin> {''processingState'', ''fileKey'', ''jobKey'', ''processingStartTime''}" for n
      using that by (auto simp: get_set_attr)
    show "processingState ?r3 = JUndefined \<or> kept_as_given (processingState ?r3)"
      unfolding st by (rule kn)
    show "fileKey ?r3 = JUndefined \<or> kept_as_given (fileKey ?r3)"
      using assms(9) by (simp add: get_set_attr)
    show "jobKey ?r3 = jobKey r \<or> kept_as_given (jobKey ?r3)"
      by (simp add: get_set_attr kept_as_given_def)
    show "processingStartTime ?r3 = JNull \<or> processingStartTime ?r3 = processingStartTime r"
      by (simp add: get_set_attr)
  qed
  then obtain d' where sc: "store_changes r ?r3 d = Some d'"
    using store_changes_accepts [of d r ?r3] by auto
  have pe: "put_fileProcessing req d = (Response 200 [''Processing finished.''], d')"
    unfolding eq sc by simp
  have id: "rec_id ?r3 = i" using findOne_id_rec_id [OF assms(3)] by simp
  note row = store_changes_row [OF sc assms(3) id]
  have "row_attr d' i ''processingState''
          = Some (if nextJob jobs (processingState r) = JUndefined then processingState r
                  else nextJob jobs (processingState r))"
  proof (cases "nextJob jobs (processingState r) = JUndefined")
    case True
    with st have "processingState ?r3 = JUndefined" by simp
    then show ?thesis unfolding row using True by (simp add: undefined_ignored)
  next
    case False
    with kn have "kept_as_given (nextJob jobs (processingState r))" by simp
    from kept_stored(1) [OF string_attribute_names(1) attribute_names(1) st this] False
    show ?thesis unfolding row by simp
  qed
  then show ?thesis unfolding pe by simp
qed

text \<open>
  C6, as claimed, fails: no error is raised. A report on the audio recording held in
  its last stage \<^verbatim>\<open>FINISHED\<close> is answered with status 200; the stage computed is
  \<^verbatim>\<open>undefined\<close>, which is not written, and the recording stays in
  \<^verbatim>\<open>FINISHED\<close>. A state that is not in the list (\<^verbatim>\<open>toMp4\<close> for audio) is
  followed by the first stage.
\<close>

theorem next_stage_no_failure:
  "processingStates (rtype finished_row) = Some [''toMp3'', ''FINISHED''] \<and>
   processingState finished_row = JString ''FINISHED'' \<and>
   nextJob [''toMp3'', ''FINISHED''] (JString ''FINISHED'') = JUndefined \<and>
   fst (put_fileProcessing (report ''T'' True NoResult) finished_db)
     = Response 200 [''Processing finished.''] \<and>
   row_attr (snd (put_fileProcessing (report ''T'' True NoResult) finished_db)) 1 ''processingState''
     = Some (JString ''FINISHED'') \<and>
   nextJob [''toMp3'', ''FINISHED''] (JString ''toMp4'') = JString ''toMp3''"
proof -
  let ?req = "report ''T'' True NoResult"
  have h1: "errorMessages ?req = []" by (simp add: report_fields)
  have h7: "processingStates (rtype finished_row) = Some [''toMp3'', ''FINISHED'']"
    by (simp add: finished_row_attrs audio_stages)
  have h8: "assigned (req_result ?req) = []"
    by (simp add: report_fields assigned_def fieldUpdates_of_def)
  have h9: "req_newProcessedFileKey ?req = JUndefined \<or> kept_as_given (req_newProcessedFileKey ?req)"
    by (simp add: report_fields kept_as_given_def)
  note t = put_success_state [OF h1 report_fields(1) finished_db_row report_fields(2)
             finished_row_attrs(4) report_fields(3) h7 h8 h9]
  have n: "nextJob [''toMp3'', ''FINISHED''] (JString ''FINISHED'') = JUndefined"
    using nextJob_terminal [of "''FINISHED''" "[''toMp3'']"] by simp
  have t2: "row_attr (snd (put_fileProcessing ?req finished_db)) 1 ''processingState''
              = Some (JString ''FINISHED'')"
    using t [THEN conjunct2] n by (simp add: finished_row_attrs)
  have m: "nextJob [''toMp3'', ''FINISHED''] (JString ''toMp4'') = JString ''toMp3''"
    by (simp add: nextJob_def indexOf_def at_index_def)
  show ?thesis
    by (intro conjI h7 finished_row_attrs(3) n t [THEN conjunct1] t2 m)
qed

text \<open>
  C6, amended. The next stage is the element right after the current one when the
  current one has a successor in the list. There is no failure otherwise: after the
  last stage the computation gives \<^verbatim>\<open>undefined\<close>, and for a state that is not in
  the list the first element of the list. A report of success without field updates,
  whose new file key (if any) is a value the column keeps as given, is answered with
  status 200 and stores the stage so computed, the state staying as it was when that
  is \<^verbatim>\<open>undefined\<close>.
\<close>

theorem nextJob_cases:
  "(s \<notin> set pre \<longrightarrow> nextJob (pre @ s # nxt # post) (JString s) = JString nxt) \<and>
   (s \<notin> set pre \<longrightarrow> nextJob (pre @ [s]) (JString s) = JUndefined) \<and>
   (state \<notin> JString ` set jobs \<longrightarrow> nextJob jobs state = at_index jobs 0) \<and>
   (errorMessages req = [] \<and> req_id req = Some i \<and> findOne_id d i = Some r \<and>
    req_jobKey req = Some k \<and> jobKey r = JString k \<and> req_success req = Some True \<and>
    processingStates (rtype r) = Some stages \<and>
    assigned (req_result req) = [] \<and>
    (req_newProcessedFileKey req = JUndefined \<or> kept_as_given (req_newProcessedFileKey req)) \<longrightarrow>
      fst (put_fileProcessing req d) = Response 200 [''Processing finished.''] \<and>
      row_attr (snd (put_fileProcessing req d)) i ''processingState''
        = Some (if nextJob stages (processingState r) = JUndefined then processingState r
                else nextJob stages (processingState r)))"
proof (intro conjI impI)
  show "s \<notin> set pre \<Longrightarrow> nextJob (pre @ s # nxt # post) (JString s) = JString nxt"
    by (rule nextJob_successor)
  show "s \<notin> set pre \<Longrightarrow> nextJob (pre @ [s]) (JString s) = JUndefined"
    by (rule nextJob_terminal)
  show "state \<notin> JString ` set jobs \<Longrightarrow> nextJob jobs state = at_index jobs 0"
    by (rule nextJob_not_found)
  assume h: "errorMessages req = [] \<and> req_id req = Some i \<and> findOne_id d i = Some r \<and>
    req_jobKey req = Some k \<and> jobKey r = JString k \<and> req_success req = Some True \<and>
    processingStates (rtype r) = Some stages \<and>
    assigned (req_result req) = [] \<and>
    (req_newProcessedFileKey req = JUndefined \<or> kept_as_given (req_newProcessedFileKey req))"
  then have t: "fst (put_fileProcessing req d) = Response 200 [''Processing finished.''] \<and>
         row_attr (snd (put_fileProcessing req d)) i ''processingState''
           = Some (if nextJob stages (processingState r) = JUndefined then processingState r
                   else nextJob stages (processingState r))"
    by (elim conjE) (rule put_success_state)
  from t show "fst (put_fileProcessing req d) = Response 200 [''Processing finished.'']"
    by (rule conjunct1)
  from t show "row_attr (snd (put_fileProcessing req d)) i ''processingState''
           = Some (if nextJob stages (processingState r) = JUndefined then processingState r
                   else nextJob stages (processingState r))"
    by (rule conjunct2)
qed

theorem nextJob_cases_witness:
  "''toMp3'' \<notin> set [] \<and>
   nextJob ([] @ ''toMp3'' # ''FINISHED'' # []) (JString ''toMp3'') = JString ''FINISHED'' \<and>
   ''FINISHED'' \<notin> set [''toMp3''] \<and>
   nextJob ([''toMp3''] @ [''FINISHED'']) (JString ''FINISHED'') = JUndefined \<and>
   JString ''toMp4'' \<notin> JString ` set [''toMp3'', ''FINISHED''] \<and>
   nextJob [''toMp3'', ''FINISHED''] (JString ''toMp4'') = at_index [''toMp3'', ''FINISHED''] 0 \<and>
   errorMessages (report ''T'' True NoResult) = [] \<and>
   findOne_id finished_db 1 = Some finished_row \<and>
   jobKey finished_row = JString ''T'' \<and>
   processingStates (rtype finished_row) = Some [''toMp3'', ''FINISHED''] \<and>
   assigned (req_result (report ''T'' True NoResult)) = [] \<and>
   kept_as_given (req_newProcessedFileKey (report ''T'' True NoResult)) \<and>
   fst (put_fileProcessing (report ''T'' True NoResult) finished_db)
     = Response 200 [''Processing finished.''] \<and>
   row_attr (snd (put_fileProcessing (report ''T'' True NoResult) finished_db)) 1 ''processingState''
     = Some (if nextJob [''toMp3'', ''FINISHED''] (processingState finished_row) = JUndefined
             then processingState finished_row
             else nextJob [''toMp3'', ''FINISHED''] (processingState finished_row)) \<and>
   findOne_id claimed_db 1 = Some claimed_row \<and>
   processingState claimed_row = JString ''toMp3'' \<and>
   row_attr (snd (put_fileProcessing (report ''T'' True NoResult) claimed_db)) 1 ''processingState''
     = Some (JString ''FINISHED'')"
proof -
  let ?req = "report ''T'' True NoResult"
  note t = nextJob_cases [where s = "''toMp3''" and pre = "[]" and nxt = "''FINISHED''" and post = "[]"]
  note u = nextJob_cases [where s = "''FINISHED''" and pre = "[''toMp3'']"]
  note v = nextJob_cases [where state = "JString ''toMp4''" and jobs = "[''toMp3'', ''FINISHED'']"]
  note w = nextJob_cases [where req = ?req and i = 1 and d = finished_db and r = finished_row
             and k = "''T''" and stages = "[''toMp3'', ''FINISHED'']"]
  note x = nextJob_cases [where req = ?req and i = 1 and d = claimed_db and r = claimed_row
             and k = "''T''" and stages = "[''toMp3'', ''FINISHED'']"]
  have a1: "''toMp3'' \<notin> set []" by simp
  have a2: "''FINISHED'' \<notin> set [''toMp3'']" by simp
  have a3: "JString ''toMp4'' \<notin> JString ` set [''toMp3'', ''FINISHED'']" by simp
  have h1: "errorMessages ?req = []" by (simp add: report_fields)
  have h7: "processingStates (rtype finished_row) = Some [''toMp3'', ''FINISHED'']"
    by (simp add: finished_row_attrs audio_stages)
  have h7': "processingStates (rtype claimed_row) = Some [''toMp3'', ''FINISHED'']"
    by (simp add: claimed_row_attrs audio_stages)
  have h8: "assigned (req_result ?req) = []"
    by (simp add: report_fields assigned_def fieldUpdates_of_def)
  have kp: "kept_as_given (req_newProcessedFileKey ?req)"
    by (simp add: report_fields kept_as_given_def)
  have h9: "req_newProcessedFileKey ?req = JUndefined \<or> kept_as_given (req_newProcessedFileKey ?req)"
    using kp by simp
  note b1 = t [THEN conjunct1, rule_format, OF a1]
  note b2 = u [THEN conjunct2, THEN conjunct1, rule_format, OF a2]
  note b3 = v [THEN conjunct2, THEN conjunct2, THEN conjunct1, rule_format, OF a3]
  have hyps: "errorMessages ?req = [] \<and> req_id ?req = Some 1 \<and>
      findOne_id finished_db 1 = Some finished_row \<and>
      req_jobKey ?req = Some ''T'' \<and> jobKey finished_row = JString ''T'' \<and>
      req_success ?req = Some True \<and>
      processingStates (rtype finished_row) = Some [''toMp3'', ''FINISHED''] \<and>
      assigned (req_result ?req) = [] \<and>
      (req_newProcessedFileKey ?req = JUndefined \<or> kept_as_given (req_newProcessedFileKey ?req))"
    by (intro conjI h1 report_fields(1) finished_db_row report_fields(2) finished_row_attrs(4)
          report_fields(3) h7 h8 h9)
  have hyps': "errorMessages ?req = [] \<and> req_id ?req = Some 1 \<and>
      findOne_id claimed_db 1 = Some claimed_row \<and>
      req_jobKey ?req = Some ''T'' \<and> jobKey claimed_row = JString ''T'' \<and>
      req_success ?req = Some True \<and>
      processingStates (rtype claimed_row) = Some [''toMp3'', ''FINISHED''] \<and>
      assigned (req_result ?req) = [] \<and>
      (req_newProcessedFileKey ?req = JUndefined \<or> kept_as_given (req_newProcessedFileKey ?req))"
    by (intro conjI h1 report_fields(1) claimed_db_row report_fields(2) claimed_row_attrs(4)
          report_fields(3) h7' h8 h9)
  note b4 = w [THEN conjunct2, THEN conjunct2, THEN conjunct2, THEN mp, OF hyps]
  note b5 = x [THEN conjunct2, THEN conjunct2, THEN conjunct2, THEN mp, OF hyps']
  have c: "row_attr (snd (put_fileProcessing ?req claimed_db)) 1 ''processingState''
             = Some (JString ''FINISHED'')"
    using b5 [THEN conjunct2]
    by (simp add: claimed_row_attrs nextJob_def indexOf_def at_index_def)
  show ?thesis
    by (intro conjI a1 b1 a2 b2 a3 b3 h1 finished_db_row finished_row_attrs(4) h7 h8 kp
          b4 [THEN conjunct1] b4 [THEN conjunct2] claimed_db_row claimed_row_attrs(3) c)
qed



text \<open>The row that a claim writes: the job key and the start time of the instance.\<close>

lemma stamp_fold:
  "jobKey inst \<noteq> JUndefined \<Longrightarrow> processingStartTime inst \<noteq> JUndefined \<Longrightarrow>
   fold (\<lambda>name y. if get_attr inst name = JUndefined then y
                   else set_attr name (get_attr inst name) y)
     [''jobKey'', ''processingStartTime''] x
   = set_attr ''processingStartTime'' (processingStartTime inst)
       (set_attr ''jobKey'' (jobKey inst) x)"
  by simp

lemma save_fields_rows:
  "r' \<in> set (Recordings (save_fields names inst d)) \<Longrightarrow>
   r' \<in> set (Recordings d) \<or>
   (\<exists>x\<in>set (Recordings d). rec_id x = rec_id inst \<and>
      r' = fold (\<lambda>name y. if get_attr inst name = JUndefined then y
                          else set_attr name (get_attr inst name) y) names x)"
  by (auto simp: save_fields_def)

lemma rec_id_fold_fields [simp]:
  "rec_id (fold (\<lambda>name y. if get_attr inst name = JUndefined then y
                          else set_attr name (get_attr inst name) y) names x) = rec_id x"
  by (induction names arbitrary: x) simp_all


lemma save_rows:
  "r' \<in> set (Recordings (save r d)) \<Longrightarrow> r' = r \<or> r' \<in> set (Recordings d)"
  by (auto simp: save_def)


lemma get_project:
  "get_attr (project attrs r) name = (if name \<in> set attrs then get_attr r name else JUndefined)"
  by (simp add: project_def get_attr_def)

lemma rec_id_project [simp]: "rec_id (project attrs r) = rec_id r"
  by (simp add: project_def)

lemma claimed_instance:
  "rec_id (set_attr ''processingStartTime'' (JString date)
            (set_attr ''jobKey'' (JString uuid) (project processingAttributes row))) = rec_id row"
  "jobKey (set_attr ''processingStartTime'' (JString date)
            (set_attr ''jobKey'' (JString uuid) (project processingAttributes row))) = JString uuid"
  "processingStartTime (set_attr ''processingStartTime'' (JString date)
            (set_attr ''jobKey'' (JString uuid) (project processingAttributes row))) = JString date"
  "rtype (set_attr ''processingStartTime'' (JString date)
            (set_attr ''jobKey'' (JString uuid) (project processingAttributes row))) = rtype row"
  "processingState (set_attr ''processingStartTime'' (JString date)
            (set_attr ''jobKey'' (JString uuid) (project processingAttributes row)))
     = processingState row"
  by (simp_all add: get_set_attr get_project processingAttributes_def)





lemma claimed_db_eq:
  "claimed_db = \<lparr>Recordings = [claimed_row], Tags = [], Tracks = [], TrackTags = [],
                  writes = no_writes, path_set = no_path_set\<rparr>"
  by (simp add: claimed_db_def getOneForProcessing_def candidates_def audio_db_def audio_row_def
      claimable_def get_attr_def no_values_def Let_def save_fields_def set_attr_def project_def
      processingAttributes_def claimed_row_def time_key_def)

lemma claim_pair_ok_cleared:
  "claim_pair_ok (set_attr ''processingStartTime'' JNull (set_attr ''jobKey'' JNull r))"
  "claim_pair_ok (set_attr ''jobKey'' JNull (set_attr ''processingStartTime'' JNull r))"
  by (simp_all add: claim_pair_ok_def get_set_attr)

lemma claim_pair_ok_cong:
  "jobKey r' = jobKey r \<Longrightarrow> processingStartTime r' = processingStartTime r \<Longrightarrow>
   claim_pair_ok r' = claim_pair_ok r"
  by (simp add: claim_pair_ok_def)

lemma claim_rows_ok:
  assumes "\<forall>r\<in>set (Recordings d). claim_pair_ok r"
  shows "\<forall>r\<in>set (Recordings (snd (getOneForProcessing sortKey locked fails uuid date ty st d))).
           claim_pair_ok r"
proof (cases "fails \<or> first_desc (\<lambda>r. sortKey (get_attr r ''recordingDateTime''))
                (candidates locked ty st d) = None")
  case True
  then have "snd (getOneForProcessing sortKey locked fails uuid date ty st d) = d"
    by (auto simp: getOneForProcessing_def)
  with assms show ?thesis by simp
next
  case False
  then obtain row where row: "\<not> fails"
    "first_desc (\<lambda>r. sortKey (get_attr r ''recordingDateTime'')) (candidates locked ty st d) = Some row"
    by auto
  let ?inst = "set_attr ''processingStartTime'' (JString date)
                 (set_attr ''jobKey'' (JString uuid) (project processingAttributes row))"
  have eq: "snd (getOneForProcessing sortKey locked fails uuid date ty st d)
              = save_fields [''jobKey'', ''processingStartTime''] ?inst d"
    using row by (simp add: getOneForProcessing_def Let_def)
  have stamp: "fold (\<lambda>name y. if get_attr ?inst name = JUndefined then y
                              else set_attr name (get_attr ?inst name) y)
                 [''jobKey'', ''processingStartTime''] x
               = set_attr ''processingStartTime'' (JString date)
                   (set_attr ''jobKey'' (JString uuid) x)" for x
    using stamp_fold [of ?inst x] by (simp add: claimed_instance)
  show ?thesis
  proof
    fix r assume "r \<in> set (Recordings (snd (getOneForProcessing sortKey locked fails uuid date ty st d)))"
    then have "r \<in> set (Recordings (save_fields [''jobKey'', ''processingStartTime''] ?inst d))"
      by (simp only: eq)
    from save_fields_rows [OF this] show "claim_pair_ok r"
    proof (elim disjE bexE conjE)
      assume "r \<in> set (Recordings d)"
      with assms show ?thesis by simp
    next
      fix x assume "r = fold (\<lambda>name y. if get_attr ?inst name = JUndefined then y
                              else set_attr name (get_attr ?inst name) y)
                          [''jobKey'', ''processingStartTime''] x"
      then have "r = set_attr ''processingStartTime'' (JString date)
                   (set_attr ''jobKey'' (JString uuid) x)"
        by (simp only: stamp)
      then show ?thesis by (simp add: claim_pair_ok_def get_set_attr)
    qed
  qed
qed

text \<open>
  The job key and the start time of a row after the save of a report of success whose
  field updates assign neither.
\<close>

lemma stored_pair_ok:
  assumes "claim_pair_ok r" and "jobKey r \<noteq> JNull" and "claim_pair_ok x"
    and "(jobKey inst = JNull \<and> processingStartTime inst = JNull) \<or>
         (jobKey inst = jobKey r \<and> processingStartTime inst = processingStartTime r)"
  shows "claim_pair_ok
           (x\<lparr>dataValues := (\<lambda>name. case written_value d r inst name of
                                      Stored v \<Rightarrow> v
                                    | _ \<Rightarrow> dataValues x name)\<rparr>)"
  using assms(4)
proof
  assume c: "jobKey inst = JNull \<and> processingStartTime inst = JNull"
  from assms(1,2) have s: "processingStartTime r \<noteq> JNull" by (simp add: claim_pair_ok_def)
  have "written_value d r inst ''jobKey'' = Stored JNull"
    using c assms(2) by (simp add: written_value_def write_value_def kept_as_given_def)
  moreover have "written_value d r inst ''processingStartTime'' = Stored JNull"
    using c s by (simp add: written_value_def write_value_def)
  ultimately show ?thesis by (simp add: claim_pair_ok_def get_attr_def)
next
  assume "jobKey inst = jobKey r \<and> processingStartTime inst = processingStartTime r"
  then have "written_value d r inst ''jobKey'' = Ignored"
    "written_value d r inst ''processingStartTime'' = Ignored"
    by (simp_all add: unchanged_ignored)
  with assms(3) show ?thesis by (simp add: claim_pair_ok_def get_attr_def)
qed

lemma report_rows_ok:
  assumes "\<forall>r\<in>set (Recordings d). claim_pair_ok r"
    and "req_success req = Some True \<longrightarrow>
           ''jobKey'' \<notin> set (assigned (req_result req)) \<and>
           ''processingStartTime'' \<notin> set (assigned (req_result req))"
  shows "\<forall>r\<in>set (Recordings (snd (put_fileProcessing req d))). claim_pair_ok r"
proof -
  consider (same) "snd (put_fileProcessing req d) = d"
    | (failed) r where "findOne_id d (rec_id r) = Some r"
        "snd (put_fileProcessing req d)
           = save (set_attr ''jobKey'' JNull (set_attr ''processingStartTime'' JNull r)) d"
    | (finished) r i k jobs where "errorMessages req = []" "req_id req = Some i"
        "findOne_id d i = Some r" "req_jobKey req = Some k" "jobKey r = JString k"
        "req_success req = Some True" "processingStates (rtype r) = Some jobs"
  proof (cases "errorMessages req = []")
    case False
    then show ?thesis using same by (simp add: put_fileProcessing_def)
  next
    case True
    show ?thesis
    proof (cases "req_id req")
      case None
      then show ?thesis using same True by (simp add: put_fileProcessing_def)
    next
      case (Some i)
      note i = this
      show ?thesis
      proof (cases "req_jobKey req")
        case None
        then show ?thesis using same True i by (simp add: put_fileProcessing_def)
      next
        case (Some k)
        note k = this
        show ?thesis
        proof (cases "findOne_id d i")
          case None
          then show ?thesis using same True i k by (simp add: put_fileProcessing_def)
        next
          case (Some r)
          note r = this
          show ?thesis
          proof (cases "JString k = jobKey r")
            case False
            then show ?thesis using same True i k r by (simp add: put_fileProcessing_def)
          next
            case True
            note m = this
            show ?thesis
            proof (cases "req_success req = Some True")
              case False
              have "snd (put_fileProcessing req d)
                = save (set_attr ''jobKey'' JNull (set_attr ''processingStartTime'' JNull r)) d"
                using \<open>errorMessages req = []\<close> i k r m False
                by (simp add: put_fileProcessing_def Let_def)
              moreover have "findOne_id d (rec_id r) = Some r"
                using r findOne_id_rec_id [OF r] by simp
              ultimately show ?thesis using failed by blast
            next
              case True
              show ?thesis
              proof (cases "processingStates (rtype r)")
                case None
                then show ?thesis using same \<open>errorMessages req = []\<close> i k r m True
                  by (simp add: put_fileProcessing_def)
              next
                case (Some jobs)
                show ?thesis
                  using finished [OF \<open>errorMessages req = []\<close> i r k m [symmetric] True Some] .
              qed
            qed
          qed
        qed
      qed
    qed
  qed
  then show ?thesis
  proof cases
    case same
    with assms(1) show ?thesis by simp
  next
    case (failed r)
    show ?thesis
    proof
      fix x assume "x \<in> set (Recordings (snd (put_fileProcessing req d)))"
      then have "x = set_attr ''jobKey'' JNull (set_attr ''processingStartTime'' JNull r)
                 \<or> x \<in> set (Recordings d)"
        unfolding failed(2) by (rule save_rows)
      with assms(1) show "claim_pair_ok x" by (auto simp: claim_pair_ok_cleared)
    qed
  next
    case (finished r i k jobs)
    let ?fu = "fieldUpdates_of (req_result req)"
    let ?r2 = "set_attr ''fileKey'' (req_newProcessedFileKey req)
                 (set_attr ''processingState'' (nextJob jobs (processingState r)) r)"
    let ?r3 = "if req_complete req = Some True
               then set_attr ''processingStartTime'' JNull (set_attr ''jobKey'' JNull ?r2)
               else ?r2"
    show ?thesis
    proof (rule put_success_cases [OF finished])
      assume "snd (put_fileProcessing req d) = d"
      with assms(1) show ?thesis by simp
    next
      fix r4 d'
      assume stored: "mergeUpdate d ?fu ?r3 = Some r4" "store_changes r r4 d = Some d'"
        "put_fileProcessing req d = (Response 200 [''Processing finished.''], d')"
      have names: "''jobKey'' \<notin> fst ` set ?fu" "''processingStartTime'' \<notin> fst ` set ?fu"
        using assms(2) finished(6) by (simp_all add: assigned_def)
      have js: "''jobKey'' \<notin> set json_attributes" "''processingStartTime'' \<notin> set json_attributes"
        by (simp_all add: json_attributes_def)
      have r4: "jobKey r4 = jobKey ?r3" "processingStartTime r4 = processingStartTime ?r3"
        using get_mergeUpdate [OF stored(1) names(1) js(1)]
          get_mergeUpdate [OF stored(1) names(2) js(2)] by simp_all
      have pair: "(jobKey r4 = JNull \<and> processingStartTime r4 = JNull) \<or>
         (jobKey r4 = jobKey r \<and> processingStartTime r4 = processingStartTime r)"
        unfolding r4 by (simp add: get_set_attr)
      have r: "claim_pair_ok r" using assms(1) findOne_id_mem [OF finished(3)] by simp
      have nn: "jobKey r \<noteq> JNull" using finished(5) by simp
      show ?thesis
      proof
        fix y assume "y \<in> set (Recordings (snd (put_fileProcessing req d)))"
        then have "y \<in> set (Recordings d')" unfolding stored(3) by simp
        from store_changes_rows [OF stored(2) this] show "claim_pair_ok y"
        proof (elim disjE bexE)
          assume "y \<in> set (Recordings d)"
          with assms(1) show ?thesis by simp
        next
          fix x assume x: "x \<in> set (Recordings d)"
            and y: "y = x\<lparr>dataValues := (\<lambda>name. case written_value d r r4 name of
                                      Stored v \<Rightarrow> v
                                    | _ \<Rightarrow> dataValues x name)\<rparr>"
          from assms(1) x have "claim_pair_ok x" by simp
          from stored_pair_ok [OF r nn this pair] show ?thesis unfolding y .
        qed
      qed
    qed
  qed
qed


text \<open>
  C7, as claimed, fails. Reprocessing the claimed recording sets its processing start
  time to null and keeps its job key \<^verbatim>\<open>T\<close>; and a successful, complete report
  whose field updates assign \<^verbatim>\<open>jobKey\<close> leaves that job key set next to a null
  start time.
\<close>

theorem claim_pair_broken:
  "list_all claim_pair_ok (Recordings claimed_db) \<and>
   findOne_id claimed_db 1 = Some claimed_row \<and>
   fst (reprocess 0 claimed_row claimed_db) = Returned \<and>
   row_attr (snd (reprocess 0 claimed_row claimed_db)) 1 ''jobKey'' = Some (JString ''T'') \<and>
   row_attr (snd (reprocess 0 claimed_row claimed_db)) 1 ''processingStartTime'' = Some JNull \<and>
   \<not> list_all claim_pair_ok (Recordings (snd (reprocess 0 claimed_row claimed_db))) \<and>
   fst (put_fileProcessing (report ''T'' True (Parsed [(''jobKey'', JString ''x'')])) claimed_db)
     = Response 200 [''Processing finished.''] \<and>
   row_attr (snd (put_fileProcessing (report ''T'' True (Parsed [(''jobKey'', JString ''x'')]))
                    claimed_db)) 1 ''jobKey'' = Some (JString ''x'') \<and>
   row_attr (snd (put_fileProcessing (report ''T'' True (Parsed [(''jobKey'', JString ''x'')]))
                    claimed_db)) 1 ''processingStartTime'' = Some JNull \<and>
   \<not> list_all claim_pair_ok
       (Recordings (snd (put_fileProcessing (report ''T'' True (Parsed [(''jobKey'', JString ''x'')]))
                           claimed_db)))"
proof -
  let ?req = "report ''T'' True (Parsed [(''jobKey'', JString ''x'')])"
  have ok: "list_all claim_pair_ok (Recordings claimed_db)"
    by (simp add: claimed_db_eq claim_pair_ok_def claimed_row_attrs)
  let ?inst = "set_attr ''processingState'' (JString ''toMp3'')
                 (set_attr ''processingStartTime'' JNull claimed_row)"
  have re: "reprocess 0 claimed_row claimed_db =
      (Returned, save_fields [''processingStartTime'', ''processingState''] ?inst claimed_db)"
    by (simp add: reprocess_def claimed_db_eq claimed_row_attrs processingStates_def Let_def
          at_index_def)
  have rows: "Recordings (snd (reprocess 0 claimed_row claimed_db)) = [?inst]"
    unfolding re snd_conv save_fields_def
    by (simp add: claimed_db_eq claimed_row_attrs get_set_attr)
  have fr: "findOne_id (snd (reprocess 0 claimed_row claimed_db)) 1 = Some ?inst"
    by (simp add: findOne_id_def rows claimed_row_attrs)
  have r1: "fst (reprocess 0 claimed_row claimed_db) = Returned"
    unfolding re by simp
  have r2: "row_attr (snd (reprocess 0 claimed_row claimed_db)) 1 ''jobKey'' = Some (JString ''T'')"
    and r3: "row_attr (snd (reprocess 0 claimed_row claimed_db)) 1 ''processingStartTime'' = Some JNull"
    unfolding row_attr_def fr by (simp_all add: claimed_row_attrs get_set_attr)
  have r4: "\<not> list_all claim_pair_ok (Recordings (snd (reprocess 0 claimed_row claimed_db)))"
    unfolding rows by (simp add: claimed_row_attrs get_set_attr claim_pair_ok_def)
  let ?r3 = "set_attr ''processingStartTime'' JNull
               (set_attr ''jobKey'' JNull
                 (set_attr ''fileKey'' (JString ''f2'')
                   (set_attr ''processingState'' (JString ''FINISHED'') claimed_row)))"
  let ?r4 = "set_attr ''jobKey'' (JString ''x'') ?r3"
  have n: "nextJob [''toMp3'', ''FINISHED''] (JString ''toMp3'') = JString ''FINISHED''"
    by (simp add: nextJob_def indexOf_def at_index_def)
  have h1: "errorMessages ?req = []" by (simp add: report_fields)
  have h7: "processingStates (rtype claimed_row) = Some [''toMp3'', ''FINISHED'']"
    by (simp add: claimed_row_attrs audio_stages)
  have mu: "mergeUpdate claimed_db [(''jobKey'', JString ''x'')] ?r3 = Some ?r4"
    by (simp add: set_name_def)
  have "written_value claimed_db claimed_row ?r4 name \<noteq> Refused" for name
  proof (rule instance_accepted)
    show "get_attr ?r4 n = get_attr claimed_row n"
      if "n \<notin> {''processingState'', ''fileKey'', ''jobKey'', ''processingStartTime''}" for n
      using that by (auto simp: get_set_attr)
    show "processingState ?r4 = JUndefined \<or> kept_as_given (processingState ?r4)"
      by (simp add: get_set_attr kept_as_given_def)
    show "fileKey ?r4 = JUndefined \<or> kept_as_given (fileKey ?r4)"
      by (simp add: get_set_attr kept_as_given_def)
    show "jobKey ?r4 = jobKey claimed_row \<or> kept_as_given (jobKey ?r4)"
      by (simp add: get_set_attr kept_as_given_def)
    show "processingStartTime ?r4 = JNull \<or>
          processingStartTime ?r4 = processingStartTime claimed_row"
      by (simp add: get_set_attr)
  qed
  then obtain d' where sc: "store_changes claimed_row ?r4 claimed_db = Some d'"
    using store_changes_accepts [of claimed_db claimed_row ?r4] by auto
  have pe: "put_fileProcessing ?req claimed_db = (Response 200 [''Processing finished.''], d')"
    unfolding put_success [OF h1 report_fields(1) claimed_db_row report_fields(2)
                claimed_row_attrs(4) report_fields(3) h7]
    by (simp add: report_fields fieldUpdates_of_def claimed_row_attrs n mu sc del: mergeUpdate.simps)
  have id: "rec_id ?r4 = 1" by (simp add: claimed_row_attrs)
  note row = store_changes_row [OF sc claimed_db_row id]
  have p1: "fst (put_fileProcessing ?req claimed_db) = Response 200 [''Processing finished.'']"
    unfolding pe by simp
  have p2: "row_attr (snd (put_fileProcessing ?req claimed_db)) 1 ''jobKey'' = Some (JString ''x'')"
    unfolding pe snd_conv row
    by (simp add: written_value_def write_value_def kept_as_given_def get_set_attr claimed_row_attrs)
  have p3: "row_attr (snd (put_fileProcessing ?req claimed_db)) 1 ''processingStartTime'' = Some JNull"
    unfolding pe snd_conv row
    by (simp add: written_value_def write_value_def get_set_attr claimed_row_attrs)
  have "\<exists>y. findOne_id d' 1 = Some y"
    using p2 unfolding pe snd_conv row_attr_def by (cases "findOne_id d' 1") simp_all
  then obtain y where y: "findOne_id d' 1 = Some y" by (rule exE)
  have "\<not> claim_pair_ok y"
    using p2 p3 unfolding pe snd_conv row_attr_def y by (simp add: claim_pair_ok_def)
  with findOne_id_mem [OF y]
  have p4: "\<not> list_all claim_pair_ok (Recordings (snd (put_fileProcessing ?req claimed_db)))"
    unfolding pe snd_conv by (auto simp: list_all_iff)
  show ?thesis
    by (intro conjI ok claimed_db_row r1 r2 r3 r4 p1 p2 p3 p4)
qed

text \<open>
  C7, amended. In a store where every recording has job key and processing start time
  both null or both set, this still holds after a claim, after a report with
  \<^verbatim>\<open>success = false\<close>, and after a report with \<^verbatim>\<open>success = true\<close> whose field
  updates assign neither of the two columns.
\<close>

theorem claim_pair_preserved:
  assumes "\<forall>r\<in>set (Recordings d). claim_pair_ok r"
  shows "(\<forall>r\<in>set (Recordings (snd (getOneForProcessing sortKey locked fails uuid date ty st d))).
            claim_pair_ok r) \<and>
         ((req_success req = Some True \<longrightarrow>
             ''jobKey'' \<notin> set (assigned (req_result req)) \<and>
             ''processingStartTime'' \<notin> set (assigned (req_result req))) \<longrightarrow>
          (\<forall>r\<in>set (Recordings (snd (put_fileProcessing req d))). claim_pair_ok r))"
  using claim_rows_ok [OF assms] report_rows_ok [OF assms] by (intro conjI impI)

theorem claim_pair_preserved_witness:
  "list_all claim_pair_ok (Recordings audio_db) \<and>
   list_all claim_pair_ok (Recordings (snd (getOneForProcessing time_key [] False ''T''
      ''2019-06-01T00:00:00.000Z'' ''audio'' ''toMp3'' audio_db))) \<and>
   list_all claim_pair_ok (Recordings claimed_db) \<and>
   req_success (report ''T'' False NoResult) = Some False \<and>
   list_all claim_pair_ok (Recordings (snd (put_fileProcessing (report ''T'' False NoResult) claimed_db))) \<and>
   req_success (report ''T'' True NoResult) = Some True \<and>
   assigned (req_result (report ''T'' True NoResult)) = [] \<and>
   list_all claim_pair_ok (Recordings (snd (put_fileProcessing (report ''T'' True NoResult) claimed_db)))"
proof -
  have a: "list_all claim_pair_ok (Recordings audio_db)"
    by (simp add: audio_db_def audio_row_def claim_pair_ok_def get_attr_def no_values_def)
  have c: "list_all claim_pair_ok (Recordings claimed_db)"
    by (simp add: claimed_db_eq claim_pair_ok_def claimed_row_attrs)
  note ta = claim_pair_preserved [OF a [unfolded list_all_iff], folded list_all_iff]
  note tc = claim_pair_preserved [OF c [unfolded list_all_iff], folded list_all_iff]
  have s: "assigned (req_result (report ''T'' True NoResult)) = []"
    by (simp add: report_fields assigned_def fieldUpdates_of_def)
  have f: "req_success (report ''T'' False NoResult) = Some True \<longrightarrow>
             ''jobKey'' \<notin> set (assigned (req_result (report ''T'' False NoResult))) \<and>
             ''processingStartTime'' \<notin> set (assigned (req_result (report ''T'' False NoResult)))"
    by (simp add: report_fields)
  have g: "req_success (report ''T'' True NoResult) = Some True \<longrightarrow>
             ''jobKey'' \<notin> set (assigned (req_result (report ''T'' True NoResult))) \<and>
             ''processingStartTime'' \<notin> set (assigned (req_result (report ''T'' True NoResult)))"
    by (simp add: s)
  show ?thesis
    by (intro conjI a c s report_fields(3)
          ta [where sortKey = time_key and locked = "[]" and fails = False and uuid = "''T''"
                and date = "''2019-06-01T00:00:00.000Z''" and ty = "''audio''" and st = "''toMp3''",
              THEN conjunct1]
          tc [where req = "report ''T'' False NoResult", THEN conjunct2, THEN mp, OF f]
          tc [where req = "report ''T'' True NoResult", THEN conjunct2, THEN mp, OF g])
qed

text \<open>
  C10. For a user without global write access, a location filtered with requested
  precision 1 is the location filtered with requested precision 100: the precision used
  is 100 for the request 1, and at least 100 whatever is requested. The witness
  evaluates a location, also for a user with global write access, for whom the
  request 1 is kept.
\<close>

theorem redact_precision_floor:
  "filterData location (makeFilterOptions False (JNum 1))
     = filterData location (makeFilterOptions False (JNum 100)) \<and>
   makeFilterOptions False (JNum 1) = 100 \<and>
   100 \<le> makeFilterOptions False latLongPrec"
  by (simp add: makeFilterOptions_def)

theorem redact_precision_floor_witness:
  "filterData (Some [-43.5321, 172.6362]) (makeFilterOptions False (JNum 1))
     = Inr (Some [Some (-43.53255), Some 172.63665]) \<and>
   filterData (Some [-43.5321, 172.6362]) (makeFilterOptions False (JNum 100))
     = Inr (Some [Some (-43.53255), Some 172.63665]) \<and>
   filterData (Some [-43.5321, 172.6362]) (makeFilterOptions True (JNum 1))
     = Inr (Some [Some (-43.532104500), Some 172.636204500])"
proof -
  have r: "(100 * 360 / 40000000 :: real) = 9 / 10000" by simp
  have f1: "\<lfloor>(172.6362::real) / (9 / 10000)\<rfloor> = 191818" by (simp add: floor_eq_iff)
  have f2: "\<lceil>(-43.5321::real) / (9 / 10000)\<rceil> = -48369" by (simp add: ceiling_eq_iff)
  have b: "filterData (Some [-43.5321, 172.6362]) (makeFilterOptions False (JNum 100))
     = Inr (Some [Some (-43.53255), Some 172.63665])"
    by (simp add: filterData_def reduceLatLonPrecision_def js_rem_def makeFilterOptions_def
          Let_def r f1 f2)
  have a: "filterData (Some [-43.5321, 172.6362]) (makeFilterOptions False (JNum 1))
     = Inr (Some [Some (-43.53255), Some 172.63665])"
    using redact_precision_floor [of "Some [-43.5321, 172.6362]", THEN conjunct1] b by simp
  have r1: "(1 * 360 / 40000000 :: real) = 9 / 1000000" by simp
  have g1: "\<lfloor>(172.6362::real) / (9 / 1000000)\<rfloor> = 19181800" by (simp add: floor_eq_iff)
  have g2: "\<lceil>(-43.5321::real) / (9 / 1000000)\<rceil> = -4836900" by (simp add: ceiling_eq_iff)
  have c: "filterData (Some [-43.5321, 172.6362]) (makeFilterOptions True (JNum 1))
     = Inr (Some [Some (-43.532104500), Some 172.636204500])"
    by (simp add: filterData_def reduceLatLonPrecision_def js_rem_def makeFilterOptions_def
          Let_def g1 g2)
  show ?thesis by (intro conjI a b c)
qed

section \<open>Facts about tag conditions\<close>

lemma read_both_Read:
  "read_both f x y = Read z \<longleftrightarrow> (\<exists>a b. x = Read a \<and> y = Read b \<and> z = f a b)"
  by (cases x; cases y) (auto simp: read_both_def)

lemma result_of_simps [simp]:
  "result_of x = Inr p \<longleftrightarrow> x = Read p"
  "result_of x \<noteq> Inl (Throws e)"
  by (cases x; simp add: result_of_def)+

lemma tag_parts_text:
  "tag_parts_expr w u t = Read cs \<Longrightarrow> map cond_text cs = tag_parts w u t"
  by (auto simp: tag_parts_expr_def tag_parts_def quoted_def split: if_splits)

lemma read_all_parts_text:
  "read_all (map (tag_parts_expr w u) ts) = Read parts \<Longrightarrow>
   map (map cond_text) parts = map (tag_parts w u) ts"
proof (induction ts arbitrary: parts)
  case Nil
  then show ?case by simp
next
  case (Cons t ts)
  from Cons.prems obtain cs rest where
    t: "tag_parts_expr w u t = Read cs" and r: "read_all (map (tag_parts_expr w u) ts) = Read rest"
    and p: "parts = cs # rest"
    by (auto split: reading.splits)
  show ?case unfolding p using tag_parts_text [OF t] Cons.IH [OF r] by simp
qed

lemma selectByTagWhat_text:
  "selectByTagWhat_expr ts w u = Read c \<Longrightarrow> map_option cond_text c = selectByTagWhat ts w u"
proof (cases "ts = []")
  case True
  assume "selectByTagWhat_expr ts w u = Read c"
  with True show ?thesis by (simp add: selectByTagWhat_expr_def selectByTagWhat_def)
next
  case False
  assume "selectByTagWhat_expr ts w u = Read c"
  with False obtain parts where
    r: "read_all (map (tag_parts_expr w u) ts) = Read parts" and c: "c = Some (AnyOf (concat parts))"
    by (auto simp: selectByTagWhat_expr_def split: reading.splits)
  have "map cond_text (concat parts) = concat (map (tag_parts w u) ts)"
    using read_all_parts_text [OF r] by (simp add: map_concat)
  with False show ?thesis by (simp add: c selectByTagWhat_def)
qed

lemma or_null_text: "cond_text (or_null_expr v) = or_null (map_option cond_text v)"
  by (cases v) (simp_all add: or_null_expr_def or_null_def)

lemma recordingTaggedWith_text:
  "recordingTaggedWith_expr tags t = Read q \<Longrightarrow>
   query_text q = recordingTaggedWith tags (map_option cond_text t)"
proof (cases tags)
  case None
  assume "recordingTaggedWith_expr tags t = Read q"
  with None show ?thesis
    by (cases t) (auto simp: recordingTaggedWith_expr_def recordingTaggedWith_def)
next
  case (Some ts)
  assume "recordingTaggedWith_expr tags t = Read q"
  with Some obtain c where c: "selectByTagWhat_expr ts ''what'' True = Read c"
    and q: "q = Select FromTags ([or_null_expr c] @ (case t of None \<Rightarrow> [] | Some x \<Rightarrow> [x]))"
    by (auto simp: recordingTaggedWith_expr_def split: reading.splits)
  show ?thesis
    unfolding q using selectByTagWhat_text [OF c] Some
    by (cases t) (simp_all add: recordingTaggedWith_def or_null_text)
qed

lemma trackTaggedWith_text:
  "trackTaggedWith_expr tags t = Read q \<Longrightarrow>
   query_text q = trackTaggedWith tags (map_option cond_text t)"
proof (cases tags)
  case None
  assume "trackTaggedWith_expr tags t = Read q"
  with None show ?thesis
    by (cases t) (auto simp: trackTaggedWith_expr_def trackTaggedWith_def)
next
  case (Some ts)
  assume "trackTaggedWith_expr tags t = Read q"
  with Some obtain c where c: "selectByTagWhat_expr ts ''what'' False = Read c"
    and q: "q = Select FromTrackTags ([or_null_expr c] @ (case t of None \<Rightarrow> [] | Some x \<Rightarrow> [x]))"
    by (auto simp: trackTaggedWith_expr_def split: reading.splits)
  show ?thesis
    unfolding q using selectByTagWhat_text [OF c] Some
    by (cases t) (simp_all add: trackTaggedWith_def or_null_text)
qed

lemma tagOfType_text:
  "tagOfType_expr tags t = Read p \<Longrightarrow> pred_text p = tagOfType tags (map_option cond_text t)"
  by (auto simp: tagOfType_expr_def tagOfType_def read_both_Read
        dest!: recordingTaggedWith_text trackTaggedWith_text)

lemma notTagOfType_text:
  "notTagOfType_expr tags t = Read p \<Longrightarrow> pred_text p = notTagOfType tags (map_option cond_text t)"
  by (auto simp: notTagOfType_expr_def notTagOfType_def read_both_Read
        dest!: recordingTaggedWith_text trackTaggedWith_text)

lemma tagTypeSql_text:
  "cond_text humanSQL_expr = humanSQL" "cond_text AISQL_expr = AISQL"
  by (simp_all add: humanSQL_expr_def humanSQL_def AISQL_expr_def AISQL_def)

lemma both_text:
  "read_both PBoth x y = Read p \<Longrightarrow> (\<And>a. x = Read a \<Longrightarrow> pred_text a = s) \<Longrightarrow>
   (\<And>b. y = Read b \<Longrightarrow> pred_text b = s') \<Longrightarrow> pred_text p = s @ '' AND '' @ s'"
  by (auto simp: read_both_Read)

text \<open>
  The text that \<^verbatim>\<open>handleTagMode\<close> returns is the text of the condition read, and
  the message it throws is the message.
\<close>

lemma handleTagMode_text:
  "handleTagMode_expr tagMode tagWhatsIn = Inr p \<Longrightarrow>
   handleTagMode tagMode tagWhatsIn = Inr (pred_text p)"
  "handleTagMode_expr tagMode tagWhatsIn = Inl (Throws e) \<Longrightarrow>
   handleTagMode tagMode tagWhatsIn = Inl e"
proof -
  define tagWhats where "tagWhats = (if tagWhatsIn \<noteq> [] then Some tagWhatsIn else None)"
  define mode where "mode = (case tagMode of
                    None \<Rightarrow> (if tagWhats \<noteq> None then ''tagged'' else ''any'')
                  | Some m \<Rightarrow> (if m = [] then (if tagWhats \<noteq> None then ''tagged'' else ''any'')
                              else m))"
  note h = tagTypeSql_text [symmetric]
  have t: "tagOfType_expr tagWhats (Some c) = Read a \<Longrightarrow>
           pred_text a = tagOfType tagWhats (Some (cond_text c))" for c a
    using tagOfType_text [of tagWhats "Some c" a] by simp
  have n: "notTagOfType_expr tagWhats (Some c) = Read a \<Longrightarrow>
           pred_text a = notTagOfType tagWhats (Some (cond_text c))" for c a
    using notTagOfType_text [of tagWhats "Some c" a] by simp
  have t0: "tagOfType_expr tagWhats None = Read a \<Longrightarrow> pred_text a = tagOfType tagWhats None" for a
    using tagOfType_text [of tagWhats None a] by simp
  have n0: "notTagOfType_expr tagWhats None = Read a \<Longrightarrow>
            pred_text a = notTagOfType tagWhats None" for a
    using notTagOfType_text [of tagWhats None a] by simp
  have r0: "recordingTaggedWith_expr (Some [mode]) None = Read q \<Longrightarrow>
            query_text q = recordingTaggedWith (Some [mode]) None" for q
    using recordingTaggedWith_text [of "Some [mode]" None q] by simp
  have e: "handleTagMode_expr tagMode tagWhatsIn =
     (if mode = ''any'' then Inr NoCondition
         else if mode = ''untagged'' then result_of (notTagOfType_expr tagWhats None)
         else if mode = ''tagged'' then result_of (tagOfType_expr tagWhats None)
         else if mode = ''human-tagged'' then
           result_of (tagOfType_expr tagWhats (Some humanSQL_expr))
         else if mode = ''automatic-tagged'' then
           result_of (tagOfType_expr tagWhats (Some AISQL_expr))
         else if mode = ''both-tagged'' then
           result_of (read_both PBoth (tagOfType_expr tagWhats (Some humanSQL_expr))
                                      (tagOfType_expr tagWhats (Some AISQL_expr)))
         else if mode = ''no-human'' then
           result_of (notTagOfType_expr tagWhats (Some humanSQL_expr))
         else if mode = ''automatic-only'' then
           result_of (read_both PBoth (tagOfType_expr tagWhats (Some AISQL_expr))
                                      (notTagOfType_expr tagWhats (Some humanSQL_expr)))
         else if mode = ''human-only'' then
           result_of (read_both PBoth (tagOfType_expr tagWhats (Some humanSQL_expr))
                                      (notTagOfType_expr tagWhats (Some AISQL_expr)))
         else if mode = ''automatic+human'' then
           result_of (read_both PBoth (tagOfType_expr tagWhats (Some humanSQL_expr))
                                      (tagOfType_expr tagWhats (Some AISQL_expr)))
         else if mode \<in> {''cool'', ''missed track'', ''multiple animals'', ''trapped in trap''} then
           result_of
             (case tagWhats of
                None \<Rightarrow>
                  read_both (\<lambda>q u. PParen (Exists True q))
                    (recordingTaggedWith_expr (Some [mode]) None) (Read ())
              | Some ts \<Rightarrow>
                  read_both (\<lambda>q p. PBoth (PParen (Exists True q)) p)
                    (recordingTaggedWith_expr (Some [mode]) None) (tagOfType_expr (Some ts) None))
         else Inl (Throws (''invalid tag mode: '' @ mode)))"
    unfolding handleTagMode_expr_def Let_def tagWhats_def [symmetric] mode_def [symmetric] ..
  have s: "handleTagMode tagMode tagWhatsIn =
     (if mode = ''any'' then Inr ''''
         else if mode = ''untagged'' then Inr (notTagOfType tagWhats None)
         else if mode = ''tagged'' then Inr (tagOfType tagWhats None)
         else if mode = ''human-tagged'' then Inr (tagOfType tagWhats (Some humanSQL))
         else if mode = ''automatic-tagged'' then Inr (tagOfType tagWhats (Some AISQL))
         else if mode = ''both-tagged'' then
           Inr (tagOfType tagWhats (Some humanSQL) @ '' AND '' @ tagOfType tagWhats (Some AISQL))
         else if mode = ''no-human'' then Inr (notTagOfType tagWhats (Some humanSQL))
         else if mode = ''automatic-only'' then
           Inr (tagOfType tagWhats (Some AISQL) @ '' AND '' @ notTagOfType tagWhats (Some humanSQL))
         else if mode = ''human-only'' then
           Inr (tagOfType tagWhats (Some humanSQL) @ '' AND '' @ notTagOfType tagWhats (Some AISQL))
         else if mode = ''automatic+human'' then
           Inr (tagOfType tagWhats (Some humanSQL) @ '' AND '' @ tagOfType tagWhats (Some AISQL))
         else if mode \<in> {''cool'', ''missed track'', ''multiple animals'', ''trapped in trap''} then
           Inr (''(EXISTS ('' @ recordingTaggedWith (Some [mode]) None @ ''))'' @
                (case tagWhats of
                   None \<Rightarrow> ''''
                 | Some ts \<Rightarrow> '' AND '' @ tagOfType (Some ts) None))
         else Inl (''invalid tag mode: '' @ mode))"
    unfolding handleTagMode_def Let_def tagWhats_def [symmetric] mode_def [symmetric] ..
  have named: "pred_text p = ''(EXISTS ('' @ recordingTaggedWith (Some [mode]) None @ ''))'' @
                (case tagWhats of
                   None \<Rightarrow> ''''
                 | Some ts \<Rightarrow> '' AND '' @ tagOfType (Some ts) None)"
    if "(case tagWhats of
                None \<Rightarrow>
                  read_both (\<lambda>q u. PParen (Exists True q))
                    (recordingTaggedWith_expr (Some [mode]) None) (Read ())
              | Some ts \<Rightarrow>
                  read_both (\<lambda>q p. PBoth (PParen (Exists True q)) p)
                    (recordingTaggedWith_expr (Some [mode]) None) (tagOfType_expr (Some ts) None))
          = Read p"
  proof (cases tagWhats)
    case None
    with that obtain q where "recordingTaggedWith_expr (Some [mode]) None = Read q"
      "p = PParen (Exists True q)"
      by (auto simp: read_both_Read)
    with r0 None show ?thesis by simp
  next
    case (Some ts)
    with that obtain q a where "recordingTaggedWith_expr (Some [mode]) None = Read q"
      "tagOfType_expr (Some ts) None = Read a" "p = PBoth (PParen (Exists True q)) a"
      by (auto simp: read_both_Read)
    with r0 tagOfType_text [of "Some ts" None a] Some show ?thesis by simp
  qed
  {
    assume "handleTagMode_expr tagMode tagWhatsIn = Inr p"
    then show "handleTagMode tagMode tagWhatsIn = Inr (pred_text p)"
      unfolding e s
      by (simp split: if_splits add: t0 n0 t n h named
            both_text [where s = "tagOfType tagWhats (Some humanSQL)"
                         and s' = "tagOfType tagWhats (Some AISQL)"]
            both_text [where s = "tagOfType tagWhats (Some AISQL)"
                         and s' = "notTagOfType tagWhats (Some humanSQL)"]
            both_text [where s = "tagOfType tagWhats (Some humanSQL)"
                         and s' = "notTagOfType tagWhats (Some AISQL)"])
  }
  {
    assume "handleTagMode_expr tagMode tagWhatsIn = Inl (Throws e)"
    then show "handleTagMode tagMode tagWhatsIn = Inl e"
      unfolding e s by (simp split: if_splits)
  }
qed

text \<open>Two of the texts, written out.\<close>

lemma untagged_text:
  \<open>handleTagMode (Some ''untagged'') [] =
     Inr (''NOT EXISTS (SELECT "Recording"."id" FROM "Tags" WHERE  "Tags"."RecordingId" = "Recording".id)'' @
          '' AND NOT EXISTS(SELECT "Recording"."id" FROM "Tracks" INNER JOIN "TrackTags" AS "Tags" ON "Tracks"."id" = "Tags"."TrackId" WHERE "Tracks"."RecordingId" = "Recording".id AND "Tracks"."archivedAt" IS NULL)'')\<close>
  by (simp add: handleTagMode_def notTagOfType_def recordingTaggedWith_def trackTaggedWith_def)

lemma human_interesting_text:
  \<open>handleTagMode (Some ''human-tagged'') [''interesting'', ''cat''] =
     Inr (''(EXISTS (SELECT "Recording"."id" FROM "Tags" WHERE  "Tags"."RecordingId" = "Recording".id'' @
          '' AND ((("Tags"."what" IS NULL OR "Tags"."what"!=\'bird\') AND ("Tags"."detail" IS NULL OR "Tags"."detail"!=\'false positive\'))'' @
          '' OR "Tags"."what" = \'cat\' OR "Tags"."detail" = \'cat\') AND (NOT "Tags".automatic))'' @
          '' OR EXISTS(SELECT "Recording"."id" FROM "Tracks" INNER JOIN "TrackTags" AS "Tags" ON "Tracks"."id" = "Tags"."TrackId" WHERE "Tracks"."RecordingId" = "Recording".id AND "Tracks"."archivedAt" IS NULL'' @
          '' AND (("Tags"."what"!=\'bird\' AND "Tags"."what"!=\'false positive\') OR "Tags"."what" = \'cat\') AND (NOT "Tags".automatic)))'')\<close>
  by (simp add: handleTagMode_def tagOfType_def recordingTaggedWith_def trackTaggedWith_def
        selectByTagWhat_def tag_parts_def or_null_def humanSQL_def quoted_def)

lemma handleTagMode_untagged:
  "handleTagMode_expr (Some ''untagged'') []
     = Inr (PBoth (PNot (Exists True (Select FromTags [])))
                  (PNot (Exists False (Select FromTrackTags []))))"
  by (simp add: handleTagMode_expr_def notTagOfType_expr_def recordingTaggedWith_expr_def
        trackTaggedWith_expr_def read_both_def result_of_def)

lemma handleTagMode_tagged:
  "handleTagMode_expr (Some ''tagged'') []
     = Inr (PParen (PEither (Exists True (Select FromTags []))
                            (Exists False (Select FromTrackTags []))))"
  by (simp add: handleTagMode_expr_def tagOfType_expr_def recordingTaggedWith_expr_def
        trackTaggedWith_expr_def read_both_def result_of_def)

text \<open>
  C8. For tag mode \<^verbatim>\<open>untagged\<close> and for tag mode \<^verbatim>\<open>tagged\<close>, both with an
  empty list of names, \<^verbatim>\<open>handleTagMode\<close> returns the text of two conditions of
  which, for every store and every recording, one holds exactly when the other does
  not.
\<close>

theorem untagged_negates_tagged:
  "\<exists>untagged tagged.
     handleTagMode_expr (Some ''untagged'') [] = Inr untagged \<and>
     handleTagMode_expr (Some ''tagged'') [] = Inr tagged \<and>
     handleTagMode (Some ''untagged'') [] = Inr (pred_text untagged) \<and>
     handleTagMode (Some ''tagged'') [] = Inr (pred_text tagged) \<and>
     (\<forall>d rid. holds d rid untagged = (\<not> holds d rid tagged))"
proof (intro exI conjI allI)
  show "handleTagMode_expr (Some ''untagged'') []
     = Inr (PBoth (PNot (Exists True (Select FromTags [])))
                  (PNot (Exists False (Select FromTrackTags []))))"
    by (rule handleTagMode_untagged)
  show "handleTagMode_expr (Some ''tagged'') []
     = Inr (PParen (PEither (Exists True (Select FromTags []))
                            (Exists False (Select FromTrackTags []))))"
    by (rule handleTagMode_tagged)
  show "handleTagMode (Some ''untagged'') []
     = Inr (pred_text (PBoth (PNot (Exists True (Select FromTags [])))
                  (PNot (Exists False (Select FromTrackTags [])))))"
    by (rule handleTagMode_text(1) [OF handleTagMode_untagged])
  show "handleTagMode (Some ''tagged'') []
     = Inr (pred_text (PParen (PEither (Exists True (Select FromTags []))
                            (Exists False (Select FromTrackTags [])))))"
    by (rule handleTagMode_text(1) [OF handleTagMode_tagged])
  show "holds d rid (PBoth (PNot (Exists True (Select FromTags [])))
                  (PNot (Exists False (Select FromTrackTags []))))
        = (\<not> holds d rid (PParen (PEither (Exists True (Select FromTags []))
                            (Exists False (Select FromTrackTags [])))))"
    for d rid
    by simp
qed

theorem untagged_negates_tagged_witness:
  "\<exists>untagged tagged.
     handleTagMode_expr (Some ''untagged'') [] = Inr untagged \<and>
     handleTagMode_expr (Some ''tagged'') [] = Inr tagged \<and>
     holds tags_db 1 tagged \<and> \<not> holds tags_db 1 untagged \<and>
     holds tags_db 2 tagged \<and> \<not> holds tags_db 2 untagged \<and>
     holds tags_db 3 untagged \<and> \<not> holds tags_db 3 tagged \<and>
     holds tags_db 4 untagged \<and> \<not> holds tags_db 4 tagged"
proof -
  from untagged_negates_tagged obtain untagged tagged where
    u: "handleTagMode_expr (Some ''untagged'') [] = Inr untagged"
    and t: "handleTagMode_expr (Some ''tagged'') [] = Inr tagged"
    and n: "\<And>d rid. holds d rid untagged = (\<not> holds d rid tagged)"
    by (elim exE conjE) simp
  have tagged: "tagged = PParen (PEither (Exists True (Select FromTags []))
                            (Exists False (Select FromTrackTags [])))"
    using t by (simp add: handleTagMode_tagged)
  have h: "holds tags_db 1 tagged" "holds tags_db 2 tagged"
    "\<not> holds tags_db 3 tagged" "\<not> holds tags_db 4 tagged"
    unfolding tagged
    by (simp_all add: rows_of_def tags_db_def)
  show ?thesis
    using u t h by (intro exI [of _ untagged] exI [of _ tagged]) (simp add: n)
qed

lemma any_of_true:
  "fold (\<lambda>c acc. sql_or acc (eval_cond row c)) cs acc = Some True \<longleftrightarrow>
     acc = Some True \<or> (\<exists>c\<in>set cs. eval_cond row c = Some True)"
proof (induction cs arbitrary: acc)
  case Nil
  then show ?case by simp
next
  case (Cons c cs)
  have "sql_or acc (eval_cond row c) = Some True \<longleftrightarrow>
          acc = Some True \<or> eval_cond row c = Some True"
    by (cases "(acc, eval_cond row c)" rule: sql_or.cases) auto
  with Cons show ?case by auto
qed

lemma sql_and_Some [simp]: "sql_and (Some a) (Some b) = Some (a \<and> b)"
  by (cases a; cases b) simp_all

lemma sql_or_Some [simp]: "sql_or (Some a) (Some b) = Some (a \<or> b)"
  by (cases a; cases b) simp_all

lemma tag_parts_read:
  "plain name \<Longrightarrow> \<exists>cs. tag_parts_expr ''what'' usesDetail name = Read cs"
  by (simp add: tag_parts_expr_def)

lemma tag_parts_true:
  "tag_parts_expr ''what'' usesDetail name = Read cs \<Longrightarrow>
   (\<exists>c\<in>set cs. eval_cond row c = Some True) \<longleftrightarrow>
   (if name = ''interesting''
    then (if usesDetail
          then what row \<noteq> Some ''bird'' \<and> detail row \<noteq> Some ''false positive''
          else what row \<noteq> None \<and> what row \<noteq> Some ''bird'' \<and>
               what row \<noteq> Some ''false positive'')
    else what row = Some name \<or> (usesDetail \<and> detail row = Some name))"
  by (cases "what row"; cases "detail row")
     (auto simp: tag_parts_expr_def column_def split: if_splits)

lemma plain_names_read:
  "list_all plain tags \<Longrightarrow>
   \<exists>parts. read_all (map (tag_parts_expr ''what'' usesDetail) tags) = Read parts \<and>
     (\<forall>row. (\<exists>c\<in>set (concat parts). eval_cond row c = Some True) \<longleftrightarrow>
        (\<exists>name\<in>set tags.
           if name = ''interesting''
           then (if usesDetail
                 then what row \<noteq> Some ''bird'' \<and> detail row \<noteq> Some ''false positive''
                 else what row \<noteq> None \<and> what row \<noteq> Some ''bird'' \<and>
                      what row \<noteq> Some ''false positive'')
           else what row = Some name \<or> (usesDetail \<and> detail row = Some name)))"
proof (induction tags)
  case Nil
  show ?case by (rule exI [of _ "[]"]) simp
next
  case (Cons t ts)
  from Cons.prems have pt: "plain t" and pts: "list_all plain ts" by simp_all
  from tag_parts_read [OF pt] obtain cs where cs: "tag_parts_expr ''what'' usesDetail t = Read cs"
    by (rule exE)
  from Cons.IH [OF pts] obtain parts where
    r: "read_all (map (tag_parts_expr ''what'' usesDetail) ts) = Read parts"
    and m: "\<And>row. (\<exists>c\<in>set (concat parts). eval_cond row c = Some True) \<longleftrightarrow>
        (\<exists>name\<in>set ts.
           if name = ''interesting''
           then (if usesDetail
                 then what row \<noteq> Some ''bird'' \<and> detail row \<noteq> Some ''false positive''
                 else what row \<noteq> None \<and> what row \<noteq> Some ''bird'' \<and>
                      what row \<noteq> Some ''false positive'')
           else what row = Some name \<or> (usesDetail \<and> detail row = Some name))"
    by (elim exE conjE) simp
  have "read_all (map (tag_parts_expr ''what'' usesDetail) (t # ts)) = Read (cs # parts)"
    by (simp add: cs r)
  moreover have "(\<exists>c\<in>set (concat (cs # parts)). eval_cond row c = Some True) \<longleftrightarrow>
        (\<exists>name\<in>set (t # ts).
           if name = ''interesting''
           then (if usesDetail
                 then what row \<noteq> Some ''bird'' \<and> detail row \<noteq> Some ''false positive''
                 else what row \<noteq> None \<and> what row \<noteq> Some ''bird'' \<and>
                      what row \<noteq> Some ''false positive'')
           else what row = Some name \<or> (usesDetail \<and> detail row = Some name))" for row
  proof -
    have "(\<exists>c\<in>set (concat (cs # parts)). eval_cond row c = Some True) \<longleftrightarrow>
          (\<exists>c\<in>set cs. eval_cond row c = Some True) \<or>
          (\<exists>c\<in>set (concat parts). eval_cond row c = Some True)"
      by auto
    then show ?thesis
      unfolding tag_parts_true [OF cs] m by simp
  qed
  ultimately show ?case by (intro exI [of _ "cs # parts"] conjI allI)
qed

text \<open>
  C9, as claimed, fails. For the tags of tracks the condition for the name
  \<^verbatim>\<open>interesting\<close> is that \<^verbatim>\<open>what\<close> differs from \<^verbatim>\<open>bird\<close> and from
  \<^verbatim>\<open>false positive\<close>, so a track tag \<^verbatim>\<open>false positive\<close>, whose \<^verbatim>\<open>what\<close> is
  not \<^verbatim>\<open>bird\<close>, is not matched, and recording 2 is not found by mode
  \<^verbatim>\<open>tagged\<close> with that name. And a name is spliced between the quotes as it is:
  for one name with a quote in it the text can be the text for two names.
\<close>

theorem interesting_track_tag_false_positive:
  \<open>selectByTagWhat_expr [''interesting''] ''what'' False
     = Read (Some (AnyOf [Paren (Both (NotEq ''what'' ''bird'') (NotEq ''what'' ''false positive''))])) \<and>
   eval_cond \<lparr>what = Some ''false positive'', detail = None, automatic = Some True\<rparr>
     (AnyOf [Paren (Both (NotEq ''what'' ''bird'') (NotEq ''what'' ''false positive''))])
     = Some False \<and>
   handleTagMode_expr (Some ''tagged'') [''interesting'']
     = Inr (PParen (PEither
         (Exists True (Select FromTags
            [AnyOf [Paren (Both (Paren (Either (IsNull ''what'') (NotEq ''what'' ''bird'')))
                                (Paren (Either (IsNull ''detail'')
                                               (NotEq ''detail'' ''false positive''))))]]))
         (Exists False (Select FromTrackTags
            [AnyOf [Paren (Both (NotEq ''what'' ''bird'') (NotEq ''what'' ''false positive''))]])))) \<and>
   rows_of tags_db 2 FromTrackTags
     = [\<lparr>what = Some ''false positive'', detail = None, automatic = Some True\<rparr>] \<and>
   \<not> holds tags_db 2 (PParen (PEither
         (Exists True (Select FromTags
            [AnyOf [Paren (Both (Paren (Either (IsNull ''what'') (NotEq ''what'' ''bird'')))
                                (Paren (Either (IsNull ''detail'')
                                               (NotEq ''detail'' ''false positive''))))]]))
         (Exists False (Select FromTrackTags
            [AnyOf [Paren (Both (NotEq ''what'' ''bird'') (NotEq ''what'' ''false positive''))]])))) \<and>
   selectByTagWhat [''cat\' OR "Tags"."what" = \'dog''] ''what'' False
     = selectByTagWhat [''cat'', ''dog''] ''what'' False \<and>
   selectByTagWhat_expr [''cat\' OR "Tags"."what" = \'dog''] ''what'' False = Unread\<close>
proof -
  have p: "plain ''interesting''" by (simp add: plain_def)
  have a: "selectByTagWhat_expr [''interesting''] ''what'' False
     = Read (Some (AnyOf [Paren (Both (NotEq ''what'' ''bird'') (NotEq ''what'' ''false positive''))]))"
    by (simp add: selectByTagWhat_expr_def tag_parts_expr_def p)
  have a': "selectByTagWhat_expr [''interesting''] ''what'' True
     = Read (Some (AnyOf [Paren (Both (Paren (Either (IsNull ''what'') (NotEq ''what'' ''bird'')))
                                (Paren (Either (IsNull ''detail'')
                                               (NotEq ''detail'' ''false positive''))))]))"
    by (simp add: selectByTagWhat_expr_def tag_parts_expr_def p)
  have b: "eval_cond \<lparr>what = Some ''false positive'', detail = None, automatic = Some True\<rparr>
     (AnyOf [Paren (Both (NotEq ''what'' ''bird'') (NotEq ''what'' ''false positive''))])
     = Some False"
    by (simp add: column_def)
  have c: "handleTagMode_expr (Some ''tagged'') [''interesting'']
     = Inr (PParen (PEither
         (Exists True (Select FromTags
            [AnyOf [Paren (Both (Paren (Either (IsNull ''what'') (NotEq ''what'' ''bird'')))
                                (Paren (Either (IsNull ''detail'')
                                               (NotEq ''detail'' ''false positive''))))]]))
         (Exists False (Select FromTrackTags
            [AnyOf [Paren (Both (NotEq ''what'' ''bird'') (NotEq ''what'' ''false positive''))]]))))"
    by (simp add: handleTagMode_expr_def tagOfType_expr_def recordingTaggedWith_expr_def
          trackTaggedWith_expr_def a a' read_both_def result_of_def or_null_expr_def)
  have d: "rows_of tags_db 2 FromTrackTags
     = [\<lparr>what = Some ''false positive'', detail = None, automatic = Some True\<rparr>]"
    by (simp add: rows_of_def tags_db_def)
  have d': "rows_of tags_db 2 FromTags = []"
    by (simp add: rows_of_def tags_db_def)
  have e: "\<not> holds tags_db 2 (PParen (PEither
         (Exists True (Select FromTags
            [AnyOf [Paren (Both (Paren (Either (IsNull ''what'') (NotEq ''what'' ''bird'')))
                                (Paren (Either (IsNull ''detail'')
                                               (NotEq ''detail'' ''false positive''))))]]))
         (Exists False (Select FromTrackTags
            [AnyOf [Paren (Both (NotEq ''what'' ''bird'') (NotEq ''what'' ''false positive''))]]))))"
    by (simp add: d d' column_def)
  have f: \<open>selectByTagWhat [''cat\' OR "Tags"."what" = \'dog''] ''what'' False
     = selectByTagWhat [''cat'', ''dog''] ''what'' False\<close>
    by (simp add: selectByTagWhat_def tag_parts_def quoted_def)
  have g: \<open>selectByTagWhat_expr [''cat\' OR "Tags"."what" = \'dog''] ''what'' False = Unread\<close>
    by (simp add: selectByTagWhat_expr_def tag_parts_expr_def plain_def)
  show ?thesis by (intro conjI a b c d e f g)
qed

text \<open>
  C9, amended. For an empty list no name condition is built. For a non-empty list of
  names without a quote in them, the condition built (whose text
  \<^verbatim>\<open>selectByTagWhat\<close> returns) is true of a tag exactly when one of the names
  matches it, where \<^verbatim>\<open>interesting\<close> matches a recording tag whose \<^verbatim>\<open>what\<close> is
  not \<^verbatim>\<open>bird\<close> and whose \<^verbatim>\<open>detail\<close> is not \<^verbatim>\<open>false positive\<close> (a missing
  value differs from both), and a track tag whose \<^verbatim>\<open>what\<close> is present and is
  neither \<^verbatim>\<open>bird\<close> nor \<^verbatim>\<open>false positive\<close>; any other name matches a tag whose
  \<^verbatim>\<open>what\<close> is the name, and a recording tag also when its \<^verbatim>\<open>detail\<close> is the
  name.
\<close>

theorem name_filter_matches:
  "selectByTagWhat_expr [] ''what'' usesDetail = Read None \<and>
   selectByTagWhat [] ''what'' usesDetail = None \<and>
   (tags \<noteq> [] \<and> list_all plain tags \<longrightarrow>
      (\<exists>c. selectByTagWhat_expr tags ''what'' usesDetail = Read (Some c) \<and>
           selectByTagWhat tags ''what'' usesDetail = Some (cond_text c) \<and>
           (\<forall>row. eval_cond row c = Some True \<longleftrightarrow>
              (\<exists>name\<in>set tags.
                 if name = ''interesting''
                 then (if usesDetail
                       then what row \<noteq> Some ''bird'' \<and> detail row \<noteq> Some ''false positive''
                       else what row \<noteq> None \<and> what row \<noteq> Some ''bird'' \<and>
                            what row \<noteq> Some ''false positive'')
                 else what row = Some name \<or> (usesDetail \<and> detail row = Some name)))))"
proof (intro conjI impI)
  show "selectByTagWhat_expr [] ''what'' usesDetail = Read None"
    by (simp add: selectByTagWhat_expr_def)
  show "selectByTagWhat [] ''what'' usesDetail = None"
    by (simp add: selectByTagWhat_def)
next
  assume a: "tags \<noteq> [] \<and> list_all plain tags"
  then have ne: "tags \<noteq> []" and pl: "list_all plain tags" by simp_all
  from plain_names_read [OF pl, of usesDetail] obtain parts where
    r: "read_all (map (tag_parts_expr ''what'' usesDetail) tags) = Read parts"
    and m: "\<And>row. (\<exists>c\<in>set (concat parts). eval_cond row c = Some True) \<longleftrightarrow>
        (\<exists>name\<in>set tags.
           if name = ''interesting''
           then (if usesDetail
                 then what row \<noteq> Some ''bird'' \<and> detail row \<noteq> Some ''false positive''
                 else what row \<noteq> None \<and> what row \<noteq> Some ''bird'' \<and>
                      what row \<noteq> Some ''false positive'')
           else what row = Some name \<or> (usesDetail \<and> detail row = Some name))"
    by (elim exE conjE) simp
  let ?c = "AnyOf (concat parts)"
  have e: "selectByTagWhat_expr tags ''what'' usesDetail = Read (Some ?c)"
    using ne by (simp add: selectByTagWhat_expr_def r)
  have t: "selectByTagWhat tags ''what'' usesDetail = Some (cond_text ?c)"
    using selectByTagWhat_text [OF e] by simp
  have v: "eval_cond row ?c = Some True \<longleftrightarrow>
              (\<exists>name\<in>set tags.
                 if name = ''interesting''
                 then (if usesDetail
                       then what row \<noteq> Some ''bird'' \<and> detail row \<noteq> Some ''false positive''
                       else what row \<noteq> None \<and> what row \<noteq> Some ''bird'' \<and>
                            what row \<noteq> Some ''false positive'')
                 else what row = Some name \<or> (usesDetail \<and> detail row = Some name))" for row
    unfolding m [symmetric] by (simp add: any_of_true)
  show "\<exists>c. selectByTagWhat_expr tags ''what'' usesDetail = Read (Some c) \<and>
           selectByTagWhat tags ''what'' usesDetail = Some (cond_text c) \<and>
           (\<forall>row. eval_cond row c = Some True \<longleftrightarrow>
              (\<exists>name\<in>set tags.
                 if name = ''interesting''
                 then (if usesDetail
                       then what row \<noteq> Some ''bird'' \<and> detail row \<noteq> Some ''false positive''
                       else what row \<noteq> None \<and> what row \<noteq> Some ''bird'' \<and>
                            what row \<noteq> Some ''false positive'')
                 else what row = Some name \<or> (usesDetail \<and> detail row = Some name)))"
    by (intro exI [of _ ?c] conjI allI e t v)
qed


theorem name_filter_matches_witness:
  "[''interesting'', ''cat''] \<noteq> [] \<and> list_all plain [''interesting'', ''cat''] \<and>
   (\<exists>c. selectByTagWhat_expr [''interesting'', ''cat''] ''what'' False = Read (Some c) \<and>
        eval_cond \<lparr>what = Some ''possum'', detail = None, automatic = None\<rparr> c = Some True \<and>
        eval_cond \<lparr>what = Some ''cat'', detail = None, automatic = None\<rparr> c = Some True \<and>
        eval_cond \<lparr>what = Some ''bird'', detail = None, automatic = None\<rparr> c \<noteq> Some True \<and>
        eval_cond \<lparr>what = Some ''false positive'', detail = None, automatic = None\<rparr> c
          \<noteq> Some True \<and>
        eval_cond \<lparr>what = None, detail = None, automatic = None\<rparr> c \<noteq> Some True) \<and>
   (\<exists>c. selectByTagWhat_expr [''interesting'', ''cat''] ''what'' True = Read (Some c) \<and>
        eval_cond \<lparr>what = None, detail = None, automatic = None\<rparr> c = Some True \<and>
        eval_cond \<lparr>what = Some ''bird'', detail = Some ''cat'', automatic = None\<rparr> c
          = Some True \<and>
        eval_cond \<lparr>what = Some ''bird'', detail = None, automatic = None\<rparr> c \<noteq> Some True \<and>
        eval_cond \<lparr>what = Some ''possum'', detail = Some ''false positive'', automatic = None\<rparr> c
          \<noteq> Some True)"
proof -
  have ne: "[''interesting'', ''cat''] \<noteq> []" by simp
  have pl: "list_all plain [''interesting'', ''cat'']" by (simp add: plain_def)
  have h: "[''interesting'', ''cat''] \<noteq> [] \<and> list_all plain [''interesting'', ''cat'']"
    using ne pl by simp
  note f = name_filter_matches [where tags = "[''interesting'', ''cat'']" and usesDetail = False,
             THEN conjunct2, THEN conjunct2, THEN mp, OF h]
  note t = name_filter_matches [where tags = "[''interesting'', ''cat'']" and usesDetail = True,
             THEN conjunct2, THEN conjunct2, THEN mp, OF h]
  from f obtain c where c: "selectByTagWhat_expr [''interesting'', ''cat''] ''what'' False = Read (Some c)"
    and cm: "\<And>row. eval_cond row c = Some True \<longleftrightarrow>
              (\<exists>name\<in>set [''interesting'', ''cat''].
                 if name = ''interesting''
                 then (if False
                       then what row \<noteq> Some ''bird'' \<and> detail row \<noteq> Some ''false positive''
                       else what row \<noteq> None \<and> what row \<noteq> Some ''bird'' \<and>
                            what row \<noteq> Some ''false positive'')
                 else what row = Some name \<or> (False \<and> detail row = Some name))"
    by (elim exE conjE) simp
  from t obtain c' where c': "selectByTagWhat_expr [''interesting'', ''cat''] ''what'' True = Read (Some c')"
    and cm': "\<And>row. eval_cond row c' = Some True \<longleftrightarrow>
              (\<exists>name\<in>set [''interesting'', ''cat''].
                 if name = ''interesting''
                 then (if True
                       then what row \<noteq> Some ''bird'' \<and> detail row \<noteq> Some ''false positive''
                       else what row \<noteq> None \<and> what row \<noteq> Some ''bird'' \<and>
                            what row \<noteq> Some ''false positive'')
                 else what row = Some name \<or> (True \<and> detail row = Some name))"
    by (elim exE conjE) simp
  have a: "\<exists>c. selectByTagWhat_expr [''interesting'', ''cat''] ''what'' False = Read (Some c) \<and>
        eval_cond \<lparr>what = Some ''possum'', detail = None, automatic = None\<rparr> c = Some True \<and>
        eval_cond \<lparr>what = Some ''cat'', detail = None, automatic = None\<rparr> c = Some True \<and>
        eval_cond \<lparr>what = Some ''bird'', detail = None, automatic = None\<rparr> c \<noteq> Some True \<and>
        eval_cond \<lparr>what = Some ''false positive'', detail = None, automatic = None\<rparr> c
          \<noteq> Some True \<and>
        eval_cond \<lparr>what = None, detail = None, automatic = None\<rparr> c \<noteq> Some True"
    by (rule exI [of _ c]) (simp add: c cm)
  have b: "\<exists>c. selectByTagWhat_expr [''interesting'', ''cat''] ''what'' True = Read (Some c) \<and>
        eval_cond \<lparr>what = None, detail = None, automatic = None\<rparr> c = Some True \<and>
        eval_cond \<lparr>what = Some ''bird'', detail = Some ''cat'', automatic = None\<rparr> c
          = Some True \<and>
        eval_cond \<lparr>what = Some ''bird'', detail = None, automatic = None\<rparr> c \<noteq> Some True \<and>
        eval_cond \<lparr>what = Some ''possum'', detail = Some ''false positive'', automatic = None\<rparr> c
          \<noteq> Some True"
    by (rule exI [of _ c']) (simp add: c' cm')
  show ?thesis by (intro conjI ne pl a b)
qed

end
